theory Spec2Isabelle
  imports Complex_Main "HOL-Library.AList"
begin

section \<open>Values as the orchestrator sees them\<close>

text \<open>
  The orchestrator (\<^verbatim>\<open>OrchestratedDocumentProcessor\<close>) handles the values that
  \<^verbatim>\<open>JSON.parse\<close> returns. An object is an association list of its own properties;
  \<^verbatim>\<open>JSON.parse\<close> never yields two properties of one name, and it makes every
  property, \<^verbatim>\<open>__proto__\<close> included, an own data property. A number is the rational
  value of the double that holds it (\<^verbatim>\<open>97.5\<close> is \<open>195 / 2\<close>).

  One more value arises: the plain object that \<^verbatim>\<open>consolidateAgentResults\<close> fills.
  It starts as \<^verbatim>\<open>{}\<close>, with the prototype \<^verbatim>\<open>Object.prototype\<close>, and is then
  \<open>JObj\<close> of its own properties; an assignment to its property \<^verbatim>\<open>__proto__\<close> can
  replace its prototype by a parsed object or array \<open>p\<close>, and it is then
  \<open>JChained own p\<close>.
\<close>

datatype json =
    JNull
  | JBool bool
  | JNum rat
  | JStr string
  | JArr "json list"
  | JObj "(string \<times> json) list"
  | JChained "(string \<times> json) list" json

datatype error = TypeError

text \<open>JavaScript truthiness: \<^verbatim>\<open>null\<close>, \<^verbatim>\<open>false\<close>, \<^verbatim>\<open>0\<close> and \<^verbatim>\<open>''\<close> are falsy.\<close>

fun truthy :: "json \<Rightarrow> bool" where
  "truthy JNull = False"
| "truthy (JBool b) = b"
| "truthy (JNum n) = (n \<noteq> 0)"
| "truthy (JStr s) = (s \<noteq> [])"
| "truthy (JArr xs) = True"
| "truthy (JObj kvs) = True"
| "truthy (JChained kvs p) = True"

fun string_of_nat :: "nat \<Rightarrow> string" where
  "string_of_nat n =
     (if n < 10 then [''0123456789'' ! n]
      else string_of_nat (n div 10) @ [''0123456789'' ! (n mod 10)])"

fun indexed :: "nat \<Rightarrow> json list \<Rightarrow> (string \<times> json) list" where
  "indexed i [] = []"
| "indexed i (x # xs) = (string_of_nat i, x) # indexed (Suc i) xs"

text \<open>
  \<^verbatim>\<open>Object.entries(x)\<close>: a \<^verbatim>\<open>TypeError\<close> on \<^verbatim>\<open>null\<close>, the own properties of
  an object, the indexed elements of an array or of a string, nothing for a number or a
  boolean.
\<close>

fun object_entries :: "json \<Rightarrow> error + (string \<times> json) list" where
  "object_entries JNull = Inl TypeError"
| "object_entries (JBool b) = Inr []"
| "object_entries (JNum n) = Inr []"
| "object_entries (JStr s) = Inr (indexed 0 (map (\<lambda>c. JStr [c]) s))"
| "object_entries (JArr xs) = Inr (indexed 0 xs)"
| "object_entries (JObj kvs) = Inr kvs"
| "object_entries (JChained kvs p) = Inr kvs"

subsection \<open>Reading and assigning a property\<close>

text \<open>
  The names of the methods of \<^verbatim>\<open>Object.prototype\<close> and of
  \<^verbatim>\<open>Array.prototype\<close> in ECMAScript 2023 (Annex B included), with
  \<^verbatim>\<open>constructor\<close>. They are writable data properties whose values are functions.
  \<^verbatim>\<open>Object.prototype\<close> has one more property, the accessor \<^verbatim>\<open>__proto__\<close>;
  \<^verbatim>\<open>Array.prototype\<close> has one more, \<^verbatim>\<open>length\<close>, which every array shadows by
  its own.
\<close>

definition object_prototype_names :: "string list" where
  "object_prototype_names =
     [''constructor'', ''__defineGetter__'', ''__defineSetter__'', ''hasOwnProperty'',
      ''__lookupGetter__'', ''__lookupSetter__'', ''isPrototypeOf'', ''propertyIsEnumerable'',
      ''toString'', ''valueOf'', ''toLocaleString'']"

definition array_prototype_names :: "string list" where
  "array_prototype_names =
     [''constructor'', ''at'', ''concat'', ''copyWithin'', ''fill'', ''find'', ''findIndex'',
      ''findLast'', ''findLastIndex'', ''lastIndexOf'', ''pop'', ''push'', ''reverse'', ''shift'',
      ''unshift'', ''slice'', ''sort'', ''splice'', ''includes'', ''indexOf'', ''join'', ''keys'',
      ''entries'', ''values'', ''forEach'', ''filter'', ''flat'', ''flatMap'', ''map'', ''every'',
      ''some'', ''reduce'', ''reduceRight'', ''toLocaleString'', ''toString'', ''toReversed'',
      ''toSorted'', ''toSpliced'', ''with'']"

text \<open>
  What reading a property yields: \<^verbatim>\<open>undefined\<close>, a value, or a built-in function or
  prototype object, which is truthy and is identical to no parsed value.
\<close>

datatype lookup = Undefined | Value json | Native

text \<open>\<^verbatim>\<open>!x\<close>.\<close>

fun js_not :: "lookup \<Rightarrow> bool" where
  "js_not Undefined = True"
| "js_not (Value v) = (\<not> truthy v)"
| "js_not Native = False"

text \<open>The own data properties of an object or array.\<close>

fun own_data :: "json \<Rightarrow> string \<Rightarrow> json option" where
  "own_data (JObj kvs) k = map_of kvs k"
| "own_data (JChained kvs p) k = map_of kvs k"
| "own_data (JArr xs) k =
     (case map_of (indexed 0 xs) k of
        Some v \<Rightarrow> Some v
      | None \<Rightarrow> if k = ''length'' then Some (JNum (of_nat (length xs))) else None)"
| "own_data JNull k = None"
| "own_data (JBool b) k = None"
| "own_data (JNum n) k = None"
| "own_data (JStr s) k = None"

text \<open>The data property \<open>k\<close> of the built-in prototypes behind a parsed value.\<close>

fun builtin_data :: "json \<Rightarrow> string \<Rightarrow> lookup" where
  "builtin_data (JArr xs) k =
     (if k \<in> set array_prototype_names \<or> k \<in> set object_prototype_names then Native
      else Undefined)"
| "builtin_data x k = (if k \<in> set object_prototype_names then Native else Undefined)"

text \<open>
  The data property \<open>k\<close> that is found on \<open>x\<close> or else along its prototype chain.
\<close>

fun chain_data :: "json \<Rightarrow> string \<Rightarrow> lookup" where
  "chain_data (JChained kvs p) k =
     (case map_of kvs k of Some v \<Rightarrow> Value v | None \<Rightarrow> chain_data p k)"
| "chain_data x k = (case own_data x k of Some v \<Rightarrow> Value v | None \<Rightarrow> builtin_data x k)"

text \<open>The same along the prototype chain of \<open>x\<close> alone, without its own properties.\<close>

fun prototype_data :: "json \<Rightarrow> string \<Rightarrow> lookup" where
  "prototype_data (JChained kvs p) k = chain_data p k"
| "prototype_data x k = builtin_data x k"

text \<open>What the getter of the accessor \<^verbatim>\<open>__proto__\<close> returns: the prototype.\<close>

fun prototype_of :: "json \<Rightarrow> lookup" where
  "prototype_of (JChained kvs p) = Value p"
| "prototype_of x = Native"

text \<open>
  \<^verbatim>\<open>x[k]\<close> for an object or array \<open>x\<close>: the data property found on \<open>x\<close> or along
  its prototype chain, and for \<^verbatim>\<open>__proto__\<close>, unless a data property of that name is
  found, the getter of \<^verbatim>\<open>Object.prototype\<close>. Reading a property of \<^verbatim>\<open>null\<close>
  throws; every caller below branches on \<open>JNull\<close> first. A string, a number or a
  boolean is read at the names \<^verbatim>\<open>confidence\<close>, \<^verbatim>\<open>finalOptimizedData\<close> and
  \<^verbatim>\<open>documentOrigin\<close> only, which their prototypes do not have.
\<close>

definition read_prop :: "json \<Rightarrow> string \<Rightarrow> lookup" where
  "read_prop x k =
     (case chain_data x k of
        Undefined \<Rightarrow> if k = ''__proto__'' then prototype_of x else Undefined
      | found \<Rightarrow> found)"

text \<open>The value read at a name that no built-in prototype has; \<open>None\<close> is \<^verbatim>\<open>undefined\<close>.\<close>

definition get_prop :: "json \<Rightarrow> string \<Rightarrow> json option" where
  "get_prop x k = (case read_prop x k of Value v \<Rightarrow> Some v | _ \<Rightarrow> None)"

text \<open>The own properties of the consolidated object, and the object with others.\<close>

fun own_props :: "json \<Rightarrow> (string \<times> json) list" where
  "own_props (JObj kvs) = kvs"
| "own_props (JChained kvs p) = kvs"
| "own_props x = []"

fun replace_own :: "json \<Rightarrow> (string \<times> json) list \<Rightarrow> json" where
  "replace_own (JChained kvs p) kvs' = JChained kvs' p"
| "replace_own x kvs' = JObj kvs'"

fun is_object :: "json \<Rightarrow> bool" where
  "is_object (JArr xs) = True"
| "is_object (JObj kvs) = True"
| "is_object (JChained kvs p) = True"
| "is_object x = False"

text \<open>
  Whether \<^verbatim>\<open>x[k] = v\<close> makes or updates an own property of the consolidated object
  \<open>x\<close>: it does when \<open>x\<close> has the property, or its prototype chain has a data
  property of that name (all of them are writable), or has no property of that name. This
  leaves the name \<^verbatim>\<open>__proto__\<close> when \<open>x\<close> has no such property and finds none but the
  accessor of \<^verbatim>\<open>Object.prototype\<close>.
\<close>

definition assigns_own :: "json \<Rightarrow> string \<Rightarrow> bool" where
  "assigns_own x k =
     (if k = ''__proto__''
      then (case map_of (own_props x) k of
              Some v \<Rightarrow> True
            | None \<Rightarrow> prototype_data x k \<noteq> Undefined)
      else True)"

text \<open>
  \<^verbatim>\<open>x[k] = v\<close> for the consolidated object \<open>x\<close>. The setter of
  \<^verbatim>\<open>Object.prototype.__proto__\<close> makes an object or array the prototype of \<open>x\<close> and
  ignores a string, a number or a boolean (\<^verbatim>\<open>null\<close> is never assigned).
\<close>

definition assign_prop :: "json \<Rightarrow> string \<Rightarrow> json \<Rightarrow> json" where
  "assign_prop x k v =
     (if assigns_own x k then replace_own x (AList.update k v (own_props x))
      else if is_object v then JChained (own_props x) v
      else x)"

subsection \<open>Numbers\<close>

text \<open>
  A JavaScript number that a computation of the orchestrator can yield: a finite number,
  \<^verbatim>\<open>NaN\<close> or an infinity.
\<close>

datatype number = Num rat | NaN | PosInfinity | NegInfinity

text \<open>\<^verbatim>\<open>x < k\<close> for a constant \<open>k\<close>: every comparison with \<^verbatim>\<open>NaN\<close> is false.\<close>

fun js_less :: "number \<Rightarrow> rat \<Rightarrow> bool" where
  "js_less (Num n) k = (n < k)"
| "js_less NaN k = False"
| "js_less PosInfinity k = False"
| "js_less NegInfinity k = True"

text \<open>
  \<^verbatim>\<open>Math.round(a / b)\<close> for \<open>b \<ge> 0\<close>. \<^verbatim>\<open>Math.round\<close> is
  \<open>\<lfloor>x + 1/2\<rfloor>\<close> (a tie goes up); a division by zero gives \<^verbatim>\<open>NaN\<close> or an
  infinity, which \<^verbatim>\<open>Math.round\<close> returns unchanged. The quotient is taken exactly,
  where the code rounds it to a double first; see \<open>calculateOverallConfidence\<close> below
  for the range in which the two agree.
\<close>

definition round_quotient :: "rat \<Rightarrow> rat \<Rightarrow> number" where
  "round_quotient a b =
     (if b = 0 then (if a = 0 then NaN else if 0 < a then PosInfinity else NegInfinity)
      else Num (of_int \<lfloor>a / b + 1 / 2\<rfloor>))"

section \<open>Agent results and their consolidation\<close>

text \<open>
  \<^verbatim>\<open>interface AgentResult\<close>. The fields that no decision of the orchestrator reads
  (suggestions, raw response, processing time, prompts) are left out. \<open>conflicts\<close> is
  optional in the source: \<open>None\<close> is a result without the property.
\<close>

record AgentResult =
  agentName :: string
  extractedData :: json
  confidence :: rat
  specialization :: "string list"
  conflicts :: "string list option"

text \<open>
  The body of the inner loop of \<^verbatim>\<open>consolidateAgentResults\<close>:
  \<^verbatim>\<open>
  if (value !== null && value !== undefined && value !== '') {
    if (!consolidated[key] || result.confidence > 75) {
      consolidated[key] = value;
    }
  }\<close>
\<close>

definition merge_field :: "rat \<Rightarrow> json \<Rightarrow> string \<times> json \<Rightarrow> json" where
  "merge_field conf consolidated kv =
     (if snd kv \<noteq> JNull \<and> snd kv \<noteq> JStr [] then
        (if js_not (read_prop consolidated (fst kv)) \<or> 75 < conf
         then assign_prop consolidated (fst kv) (snd kv)
         else consolidated)
      else consolidated)"

text \<open>The outer loop, from a running object; \<^verbatim>\<open>Object.entries\<close> may throw.\<close>

fun consolidate_from :: "json \<Rightarrow> AgentResult list \<Rightarrow> error + json" where
  "consolidate_from consolidated [] = Inr consolidated"
| "consolidate_from consolidated (result # rest) =
     (case object_entries (extractedData result) of
        Inl e \<Rightarrow> Inl e
      | Inr es \<Rightarrow>
          consolidate_from (foldl (merge_field (confidence result)) consolidated es) rest)"

definition consolidateAgentResults :: "AgentResult list \<Rightarrow> error + json" where
  "consolidateAgentResults agentResults = consolidate_from (JObj []) agentResults"

text \<open>
  The non-null, non-empty values that a result offers for a field, in the order of its
  entries (at most one for a parsed object).
\<close>

definition offered :: "AgentResult \<Rightarrow> string \<Rightarrow> json list" where
  "offered result key =
     (case object_entries (extractedData result) of
        Inl e \<Rightarrow> []
      | Inr es \<Rightarrow>
          map snd (filter (\<lambda>kv. fst kv = key \<and> snd kv \<noteq> JNull \<and> snd kv \<noteq> JStr []) es))"

section \<open>Overall confidence and conflicts\<close>

text \<open>
  \<^verbatim>\<open>calculateOverallConfidence\<close>: two \<^verbatim>\<open>reduce\<close> passes over the results and
  \<^verbatim>\<open>Math.round(weightedSum / totalWeight)\<close>; an empty list gives 0. The sums, the
  products and the quotient are taken exactly. The code computes them in doubles, with
  the same result whenever the confidences are integers and
  \<open>sum ((|confidence_i| + 1) * |specializations_i|) < 2^51\<close>: every product and partial
  sum is then an integer below \<open>2^53\<close>, which a double holds exactly, and the quotient
  \<open>q\<close> of two such integers is either a half-integer, which a double holds, or at
  least \<open>1 / (2 * totalWeight)\<close> away from the nearest one, farther than the rounding
  of \<open>q\<close> to a double moves it, so that \<^verbatim>\<open>Math.round\<close> sees it on the same side.
\<close>

definition calculateOverallConfidence :: "AgentResult list \<Rightarrow> number" where
  "calculateOverallConfidence results =
     (if length results = 0 then Num 0
      else
        let weightedSum =
              foldl (\<lambda>sum result. sum + confidence result * of_nat (length (specialization result)))
                0 results;
            totalWeight =
              foldl (\<lambda>sum result. sum + of_nat (length (specialization result))) 0 results
        in round_quotient weightedSum totalWeight)"

text \<open>
  The weighted mean in the words of the specification,
  \<^verbatim>\<open>sum(confidence_i * |specializations_i|) / sum(|specializations_i|)\<close>.
\<close>

definition spec_weighted_mean :: "AgentResult list \<Rightarrow> rat" where
  "spec_weighted_mean results =
     (\<Sum>r\<leftarrow>results. confidence r * of_nat (length (specialization r))) /
     (\<Sum>r\<leftarrow>results. of_nat (length (specialization r)))"

text \<open>
  The range of the remark above: integer confidences whose weighted magnitudes, with the
  weights, sum to less than \<open>2^51\<close>.
\<close>

definition exact_in_doubles :: "AgentResult list \<Rightarrow> bool" where
  "exact_in_doubles results =
     (list_all (\<lambda>r. confidence r = of_int \<lfloor>confidence r\<rfloor>) results \<and>
      (\<Sum>r\<leftarrow>results. (\<bar>confidence r\<bar> + 1) * of_nat (length (specialization r))) < 2 ^ 51)"

text \<open>
  \<^verbatim>\<open>hasConflicts\<close>: some result has a \<^verbatim>\<open>conflicts\<close> property that is a non-empty
  list.
\<close>

definition hasConflicts :: "AgentResult list \<Rightarrow> bool" where
  "hasConflicts results =
     list_ex (\<lambda>result. case conflicts result of None \<Rightarrow> False | Some cs \<Rightarrow> 0 < length cs)
       results"

text \<open>\<^verbatim>\<open>identifyConflicts\<close> declares an empty list and returns it.\<close>

definition identifyConflicts :: "AgentResult list \<Rightarrow> string list" where
  "identifyConflicts results = []"

text \<open>
  \<^verbatim>\<open>hasSignificantUncertainty\<close>:
  \<^verbatim>\<open>criticalFields.some(field => !data[field] || data[field] === null)\<close>.
\<close>

definition criticalFields :: "string list" where
  "criticalFields = [''totalAmount'', ''invoiceNumber'', ''providerName'', ''customerName'']"

definition hasSignificantUncertainty :: "json \<Rightarrow> bool" where
  "hasSignificantUncertainty d =
     list_ex (\<lambda>field. js_not (read_prop d field) \<or> read_prop d field = Value JNull) criticalFields"

section \<open>The completion backend and the cleaning of its responses\<close>

text \<open>
  One call of \<^verbatim>\<open>anthropic.messages.create\<close> either rejects (timeout, network,
  quota), or returns a first content block that is not text (the agents then throw), or
  returns a text. An agent's backend is the sequence of replies that successive attempts
  of that agent would get; each agent function below calls the backend once and reads
  attempt 0 only.
\<close>

datatype backend_reply = CallFails | NonTextBlock | TextBlock string

type_synonym attempts = "nat \<Rightarrow> backend_reply"

text \<open>
  \<^verbatim>\<open>String.prototype.trim\<close> and the regular expression class \<^verbatim>\<open>\s\<close>, over the
  ASCII white space characters.
\<close>

definition is_space :: "char \<Rightarrow> bool" where
  "is_space c = (c \<in> set [CHR '' '', CHR 0x09, CHR 0x0A, CHR 0x0B, CHR 0x0C, CHR 0x0D])"

definition trim :: "string \<Rightarrow> string" where
  "trim s = rev (dropWhile is_space (rev (dropWhile is_space s)))"

definition startsWith :: "string \<Rightarrow> string \<Rightarrow> bool" where
  "startsWith s p = (take (length p) s = p)"

text \<open>The markdown fence: three backquotes (character 0x60).\<close>

definition fence :: string where
  "fence = [CHR 0x60, CHR 0x60, CHR 0x60]"

text \<open>
  \<^verbatim>\<open>.replace(/\s*FENCE$/, '')\<close>: a closing fence at the very end goes, with the
  white space before it.
\<close>

definition strip_closing_fence :: "string \<Rightarrow> string" where
  "strip_closing_fence s =
     (if startsWith (rev s) (rev fence) then rev (dropWhile is_space (drop 3 (rev s))) else s)"

text \<open>
  The two branches on \<^verbatim>\<open>startsWith\<close>: \<^verbatim>\<open>.replace(/FENCEjson\s*/, '')\<close>, or
  \<^verbatim>\<open>.replace(/FENCE\s*/, '')\<close>, each followed by the removal of the closing fence.
  The text starts with the pattern, so the first match is at position 0.
\<close>

definition strip_fences :: "string \<Rightarrow> string" where
  "strip_fences s =
     (if startsWith s (fence @ ''json'')
      then strip_closing_fence (dropWhile is_space (drop 7 s))
      else if startsWith s fence
      then strip_closing_fence (dropWhile is_space (drop 3 s))
      else s)"

text \<open>
  \<^verbatim>\<open>cleanAnthropicResponse\<close>. \<^verbatim>\<open>JSON.parse\<close> is a parameter: \<open>None\<close> is a
  \<^verbatim>\<open>SyntaxError\<close>, which the function catches and turns into an error object.
\<close>

definition cleanAnthropicResponse :: "(string \<Rightarrow> json option) \<Rightarrow> string \<Rightarrow> json" where
  "cleanAnthropicResponse parse txt =
     (let cleanText = strip_fences (trim txt) in
      case parse cleanText of
        Some j \<Rightarrow> j
      | None \<Rightarrow>
          JObj [(''error'', JStr ''Failed to parse JSON''), (''rawResponse'', JStr cleanText)])"

text \<open>
  \<^verbatim>\<open>result.confidence || d\<close>: a missing, \<^verbatim>\<open>null\<close> or zero confidence gives the
  default, any other number is taken as it is. The interface declares
  \<^verbatim>\<open>confidence: number\<close>; a response whose confidence member is of another JSON
  type is outside this model, which gives it the default.
\<close>

definition confidence_or :: "json \<Rightarrow> rat \<Rightarrow> rat" where
  "confidence_or result d =
     (case get_prop result ''confidence'' of
        Some (JNum n) \<Rightarrow> (if n = 0 then d else n)
      | _ \<Rightarrow> d)"

section \<open>The agents\<close>

text \<open>
  \<^verbatim>\<open>setupAgentConfigurations\<close>: the specializations of each configured agent.
  \<^verbatim>\<open>agentConfig.specializations || [...]\<close> takes the configured list whenever the
  agent is configured (an array is truthy).
\<close>

definition agentConfigurations :: "(string \<times> string list) list" where
  "agentConfigurations =
     [(''classification_agent'', [''document_type'', ''origin_detection'', ''currency_detection'']),
      (''structural_extraction_agent'', [''basic_fields'', ''amounts'', ''dates'', ''addresses'']),
      (''metadata_agent'', [''file_analysis'', ''quality_assessment'', ''context_inference'']),
      (''argentina_fiscal_agent'', [''cuit'', ''cae'', ''iva_breakdown'', ''condicion_fiscal'']),
      (''international_trade_agent'',
         [''international_trade'', ''hs_codes'', ''incoterms'', ''banking'', ''ein_detection'',
          ''line_items'', ''observations'']),
      (''cross_validation_agent'',
         [''mathematical_validation'', ''logical_coherence'', ''cross_reference''])]"

definition specializations_or :: "string \<Rightarrow> string list \<Rightarrow> string list" where
  "specializations_or name fallback =
     (case map_of agentConfigurations name of Some s \<Rightarrow> s | None \<Rightarrow> fallback)"

text \<open>The parameters of a run that a decision reads.\<close>

record params =
  mimeType :: string
  fileName :: string

text \<open>
  \<^verbatim>\<open>runClassificationAgent\<close>. The \<^verbatim>\<open>catch\<close> block is reached when the call
  rejects, when the block is not text, and when the response is \<^verbatim>\<open>null\<close>
  (\<^verbatim>\<open>result.confidence\<close> throws). The processing of the PDF only shapes the prompt
  and has its own \<^verbatim>\<open>try\<close>.
\<close>

definition classification_fallback :: AgentResult where
  "classification_fallback =
     \<lparr>agentName = ''classification_agent'',
      extractedData = JObj [(''documentType'', JStr ''unknown''), (''documentOrigin'', JStr ''unknown'')],
      confidence = 30,
      specialization = specializations_or ''classification_agent'' [''document_type'', ''origin_detection''],
      conflicts = Some [''Classification failed'']\<rparr>"

definition runClassificationAgent :: "(string \<Rightarrow> json option) \<Rightarrow> attempts \<Rightarrow> AgentResult" where
  "runClassificationAgent parse backend =
     (case backend 0 of
        TextBlock txt \<Rightarrow>
          (case cleanAnthropicResponse parse txt of
             JNull \<Rightarrow> classification_fallback
           | result \<Rightarrow>
               \<lparr>agentName = ''classification_agent'',
                extractedData = result,
                confidence = confidence_or result 75,
                specialization =
                  specializations_or ''classification_agent''
                    [''document_type'', ''origin_detection'', ''quality_assessment''],
                conflicts = None\<rparr>)
      | _ \<Rightarrow> classification_fallback)"

text \<open>
  \<^verbatim>\<open>runStructuralExtractionAgent\<close> parses the cleaned text with \<^verbatim>\<open>JSON.parse\<close>
  itself, so a text that does not parse reaches the \<^verbatim>\<open>catch\<close> block. The parsed
  value is returned unread, \<^verbatim>\<open>null\<close> included.
\<close>

definition structural_fallback :: AgentResult where
  "structural_fallback =
     \<lparr>agentName = ''structural_extraction_agent'',
      extractedData = JObj [],
      confidence = 40,
      specialization = [''basic_fields''],
      conflicts = Some [''Structural extraction failed'']\<rparr>"

definition runStructuralExtractionAgent ::
  "(string \<Rightarrow> json option) \<Rightarrow> params \<Rightarrow> attempts \<Rightarrow> AgentResult" where
  "runStructuralExtractionAgent parse ps backend =
     (case backend 0 of
        TextBlock txt \<Rightarrow>
          (case parse (strip_fences (trim txt)) of
             None \<Rightarrow> structural_fallback
           | Some result \<Rightarrow>
               \<lparr>agentName = ''structural_extraction_agent'',
                extractedData = result,
                confidence = (if mimeType ps = ''application/pdf'' then 90 else 40),
                specialization = [''basic_fields'', ''amounts'', ''dates'', ''parties''],
                conflicts = None\<rparr>)
      | _ \<Rightarrow> structural_fallback)"

text \<open>\<^verbatim>\<open>String.prototype.includes\<close>.\<close>

fun includes_str :: "string \<Rightarrow> string \<Rightarrow> bool" where
  "includes_str [] p = (p = [])"
| "includes_str (c # cs) p = (startsWith (c # cs) p \<or> includes_str cs p)"

text \<open>\<^verbatim>\<open>runMetadataAgent\<close> reads the file name only; it calls no backend.\<close>

definition runMetadataAgent :: "params \<Rightarrow> AgentResult" where
  "runMetadataAgent ps =
     \<lparr>agentName = ''metadata_agent'',
      extractedData =
        JObj
          (if includes_str (fileName ps) ''1A3938'' \<or> includes_str (fileName ps) ''factura''
           then [(''documentOrigin'', JStr ''argentina''), (''documentType'', JStr ''factura_a'')]
           else if includes_str (fileName ps) ''freight'' \<or> includes_str (fileName ps) ''Baires''
           then [(''documentOrigin'', JStr ''international''),
                 (''documentType'', JStr ''international_invoice'')]
           else []),
      confidence = 60,
      specialization = [''file_analysis'', ''context_inference''],
      conflicts = None\<rparr>"

text \<open>
  \<^verbatim>\<open>runArgentineFiscalAgent\<close> and \<^verbatim>\<open>runInternationalTradeAgent\<close>: the prior
  iteration only enters the prompt.
\<close>

definition fiscal_fallback :: AgentResult where
  "fiscal_fallback =
     \<lparr>agentName = ''argentina_fiscal_agent'',
      extractedData = JObj [],
      confidence = 50,
      specialization = specializations_or ''argentina_fiscal_agent'' [''argentina_fiscal''],
      conflicts = Some [''Fiscal validation failed'']\<rparr>"

definition runArgentineFiscalAgent :: "(string \<Rightarrow> json option) \<Rightarrow> attempts \<Rightarrow> AgentResult" where
  "runArgentineFiscalAgent parse backend =
     (case backend 0 of
        TextBlock txt \<Rightarrow>
          (case cleanAnthropicResponse parse txt of
             JNull \<Rightarrow> fiscal_fallback
           | result \<Rightarrow>
               \<lparr>agentName = ''argentina_fiscal_agent'',
                extractedData = result,
                confidence = confidence_or result 90,
                specialization =
                  specializations_or ''argentina_fiscal_agent''
                    [''argentina_fiscal'', ''cuit_validation'', ''cae_validation''],
                conflicts = None\<rparr>)
      | _ \<Rightarrow> fiscal_fallback)"

definition trade_fallback :: AgentResult where
  "trade_fallback =
     \<lparr>agentName = ''international_trade_agent'',
      extractedData = JObj [],
      confidence = 45,
      specialization = specializations_or ''international_trade_agent'' [''international_trade''],
      conflicts = Some [''Trade data extraction failed'']\<rparr>"

definition runInternationalTradeAgent :: "(string \<Rightarrow> json option) \<Rightarrow> attempts \<Rightarrow> AgentResult" where
  "runInternationalTradeAgent parse backend =
     (case backend 0 of
        TextBlock txt \<Rightarrow>
          (case cleanAnthropicResponse parse txt of
             JNull \<Rightarrow> trade_fallback
           | result \<Rightarrow>
               \<lparr>agentName = ''international_trade_agent'',
                extractedData = result,
                confidence = confidence_or result 88,
                specialization =
                  specializations_or ''international_trade_agent''
                    [''international_trade'', ''hs_codes'', ''incoterms'', ''banking'',
                     ''ein_detection'', ''line_items'', ''observations''],
                conflicts = None\<rparr>)
      | _ \<Rightarrow> trade_fallback)"

text \<open>
  \<^verbatim>\<open>runConflictResolutionAgent\<close> returns the cleaned response unread, with the
  constant confidence 95.
\<close>

definition conflict_fallback :: AgentResult where
  "conflict_fallback =
     \<lparr>agentName = ''conflict_resolution_agent'',
      extractedData = JObj [],
      confidence = 60,
      specialization = [''conflict_resolution''],
      conflicts = Some [''Conflict resolution failed'']\<rparr>"

definition runConflictResolutionAgent :: "(string \<Rightarrow> json option) \<Rightarrow> attempts \<Rightarrow> AgentResult" where
  "runConflictResolutionAgent parse backend =
     (case backend 0 of
        TextBlock txt \<Rightarrow>
          \<lparr>agentName = ''conflict_resolution_agent'',
           extractedData = cleanAnthropicResponse parse txt,
           confidence = 95,
           specialization = [''conflict_resolution'', ''data_validation'', ''consensus_building''],
           conflicts = None\<rparr>
      | _ \<Rightarrow> conflict_fallback)"

text \<open>
  \<^verbatim>\<open>runCrossValidationAgent\<close>: the data are
  \<^verbatim>\<open>result.finalOptimizedData || result\<close>; the \<^verbatim>\<open>catch\<close> block hands back the
  consolidated data of the iteration it was given.
\<close>

definition validation_fallback :: "json \<Rightarrow> AgentResult" where
  "validation_fallback previousData =
     \<lparr>agentName = ''cross_validation_agent'',
      extractedData = previousData,
      confidence = 80,
      specialization = specializations_or ''cross_validation_agent'' [''final_validation''],
      conflicts = Some [''Final validation had issues but data preserved'']\<rparr>"

definition runCrossValidationAgent ::
  "(string \<Rightarrow> json option) \<Rightarrow> json \<Rightarrow> attempts \<Rightarrow> AgentResult" where
  "runCrossValidationAgent parse previousData backend =
     (case backend 0 of
        TextBlock txt \<Rightarrow>
          (case cleanAnthropicResponse parse txt of
             JNull \<Rightarrow> validation_fallback previousData
           | result \<Rightarrow>
               \<lparr>agentName = ''cross_validation_agent'',
                extractedData =
                  (case get_prop result ''finalOptimizedData'' of
                     None \<Rightarrow> result
                   | Some d \<Rightarrow> if truthy d then d else result),
                confidence = confidence_or result 98,
                specialization =
                  specializations_or ''cross_validation_agent''
                    [''final_validation'', ''mathematical_coherence'', ''data_integrity''],
                conflicts = None\<rparr>)
      | _ \<Rightarrow> validation_fallback previousData)"

section \<open>The three iterations and the run\<close>

text \<open>
  \<^verbatim>\<open>interface IterationResult\<close>, without the reason text and the timestamps. The
  consolidated data of the third iteration are whatever the cross validation agent
  returned, so the field holds any JSON value.
\<close>

record IterationResult =
  iterationNumber :: nat
  agentResults :: "AgentResult list"
  consolidatedData :: json
  overallConfidence :: number
  requiresNextIteration :: bool

text \<open>The backend of each agent that calls one.\<close>

record backends =
  classification_calls :: attempts
  structural_calls :: attempts
  fiscal_calls :: attempts
  trade_calls :: attempts
  conflict_calls :: attempts
  validation_calls :: attempts

text \<open>
  \<^verbatim>\<open>runIteration1_BaseAnalysis\<close>. An exception of
  \<^verbatim>\<open>consolidateAgentResults\<close> is not caught: the iteration, and the run, reject.
\<close>

definition runIteration1_BaseAnalysis ::
  "(string \<Rightarrow> json option) \<Rightarrow> params \<Rightarrow> backends \<Rightarrow> error + IterationResult" where
  "runIteration1_BaseAnalysis parse ps be =
     (let results =
            [runClassificationAgent parse (classification_calls be),
             runStructuralExtractionAgent parse ps (structural_calls be),
             runMetadataAgent ps]
      in case consolidateAgentResults results of
           Inl e \<Rightarrow> Inl e
         | Inr consolidated \<Rightarrow>
             Inr \<lparr>iterationNumber = 1,
                  agentResults = results,
                  consolidatedData = consolidated,
                  overallConfidence = calculateOverallConfidence results,
                  requiresNextIteration =
                    (js_less (calculateOverallConfidence results) 85 \<or> hasConflicts results)\<rparr>)"

text \<open>
  The agents that \<^verbatim>\<open>runIteration2_SpecializedRefinement\<close> starts, in the order it
  pushes them. \<^verbatim>\<open>previousIteration.consolidatedData.documentOrigin\<close> is compared with
  \<^verbatim>\<open>===\<close>.
\<close>

definition specializedResults ::
  "(string \<Rightarrow> json option) \<Rightarrow> backends \<Rightarrow> IterationResult \<Rightarrow> AgentResult list" where
  "specializedResults parse be previousIteration =
     (let documentType = read_prop (consolidatedData previousIteration) ''documentOrigin'';
          found = identifyConflicts (agentResults previousIteration)
      in (if documentType = Value (JStr ''argentina'') \<or> documentType = Value (JStr ''unknown'')
          then [runArgentineFiscalAgent parse (fiscal_calls be)] else []) @
         (if documentType = Value (JStr ''international'') \<or> documentType = Value (JStr ''unknown'')
          then [runInternationalTradeAgent parse (trade_calls be)] else []) @
         (if 0 < length found
          then [runConflictResolutionAgent parse (conflict_calls be)] else []))"

definition runIteration2_SpecializedRefinement ::
  "(string \<Rightarrow> json option) \<Rightarrow> backends \<Rightarrow> IterationResult \<Rightarrow> error + IterationResult" where
  "runIteration2_SpecializedRefinement parse be previousIteration =
     (if consolidatedData previousIteration = JNull then Inl TypeError
      else
        let specialized = specializedResults parse be previousIteration;
            allResults = agentResults previousIteration @ specialized
        in case consolidateAgentResults allResults of
             Inl e \<Rightarrow> Inl e
           | Inr consolidated \<Rightarrow>
               Inr \<lparr>iterationNumber = 2,
                    agentResults = specialized,
                    consolidatedData = consolidated,
                    overallConfidence = calculateOverallConfidence specialized,
                    requiresNextIteration =
                      (js_less (calculateOverallConfidence specialized) 95 \<and>
                       hasSignificantUncertainty consolidated)\<rparr>)"

definition runIteration3_FinalVerification ::
  "(string \<Rightarrow> json option) \<Rightarrow> backends \<Rightarrow> IterationResult \<Rightarrow> IterationResult" where
  "runIteration3_FinalVerification parse be previousIteration =
     (let verificationResult =
            runCrossValidationAgent parse (consolidatedData previousIteration) (validation_calls be)
      in \<lparr>iterationNumber = 3,
          agentResults = [verificationResult],
          consolidatedData = extractedData verificationResult,
          overallConfidence = Num (confidence verificationResult),
          requiresNextIteration = False\<rparr>)"

text \<open>
  The value that \<^verbatim>\<open>processDocumentOrchestrated\<close> returns, without the wall time and
  the API call log. \<^verbatim>\<open>agentsInvolved\<close> is the \<^verbatim>\<open>Set\<close> of agent names in the
  order of their first insertion.
\<close>

record OrchestrationRun =
  iterations :: "IterationResult list"
  finalResult :: json
  iterationsUsed :: nat
  agentsInvolved :: "string list"
  finalConfidence :: number

definition finish_run :: "IterationResult list \<Rightarrow> OrchestrationRun" where
  "finish_run its =
     \<lparr>iterations = its,
      finalResult = consolidatedData (last its),
      iterationsUsed = length its,
      agentsInvolved = rev (remdups (rev (map agentName (concat (map agentResults its))))),
      finalConfidence = overallConfidence (last its)\<rparr>"

definition processDocumentOrchestrated ::
  "(string \<Rightarrow> json option) \<Rightarrow> params \<Rightarrow> backends \<Rightarrow> error + OrchestrationRun" where
  "processDocumentOrchestrated parse ps be =
     (case runIteration1_BaseAnalysis parse ps be of
        Inl e \<Rightarrow> Inl e
      | Inr iteration1 \<Rightarrow>
          if requiresNextIteration iteration1 \<and> js_less (overallConfidence iteration1) 90 then
            (case runIteration2_SpecializedRefinement parse be iteration1 of
               Inl e \<Rightarrow> Inl e
             | Inr iteration2 \<Rightarrow>
                 if requiresNextIteration iteration2 \<and> js_less (overallConfidence iteration2) 95
                 then
                   Inr (finish_run
                          [iteration1, iteration2,
                           runIteration3_FinalVerification parse be iteration2])
                 else Inr (finish_run [iteration1, iteration2]))
          else Inr (finish_run [iteration1]))"

section \<open>Agent metrics\<close>

text \<open>
  \<^verbatim>\<open>interface AgentMetrics\<close> of \<^verbatim>\<open>agentManager.ts\<close>, without the name, the
  specialization and the timestamp. Averages and the success rate are rational numbers.
\<close>

record AgentMetrics =
  executions :: nat
  successRate :: rat
  averageConfidence :: rat
  averageExecutionTime :: rat
  errorCount :: nat

text \<open>
  \<^verbatim>\<open>recordAgentExecution\<close>: the execution count goes up first; a success updates the
  two averages over that count, a failure the error count; the success rate is
  recomputed. An unknown agent name changes nothing.
\<close>

definition recordAgentExecution ::
  "(string \<Rightarrow> AgentMetrics option) \<Rightarrow> string \<Rightarrow> bool \<Rightarrow> rat \<Rightarrow> rat \<Rightarrow>
   (string \<Rightarrow> AgentMetrics option)" where
  "recordAgentExecution agentMetrics agent success conf executionTime =
     (case agentMetrics agent of
        None \<Rightarrow> agentMetrics
      | Some metrics \<Rightarrow>
          let n = executions metrics + 1;
              counted =
                (if success then
                   metrics
                     \<lparr>executions := n,
                      averageConfidence :=
                        (averageConfidence metrics * of_nat (n - 1) + conf) / of_nat n,
                      averageExecutionTime :=
                        (averageExecutionTime metrics * of_nat (n - 1) + executionTime) / of_nat n\<rparr>
                 else metrics\<lparr>executions := n, errorCount := errorCount metrics + 1\<rparr>)
          in agentMetrics
               (agent \<mapsto>
                  counted
                    \<lparr>successRate :=
                       (of_nat (executions counted) - of_nat (errorCount counted)) /
                         of_nat (executions counted) * 100\<rparr>))"

text \<open>The metrics that \<^verbatim>\<open>initializeDefaultConfigs\<close> sets for each of the seven agents.\<close>

definition agentNames :: "string list" where
  "agentNames =
     [''classification_agent'', ''structural_extraction_agent'', ''metadata_agent'',
      ''argentina_fiscal_agent'', ''international_trade_agent'', ''conflict_resolution_agent'',
      ''cross_validation_agent'']"

definition initialMetrics :: "string \<Rightarrow> AgentMetrics option" where
  "initialMetrics agent =
     (if agent \<in> set agentNames
      then Some \<lparr>executions = 0, successRate = 100, averageConfidence = 0,
                 averageExecutionTime = 0, errorCount = 0\<rparr>
      else None)"

text \<open>A sequence of invocations of one agent: success flag, confidence, execution time.\<close>

fun recordExecutions ::
  "(string \<Rightarrow> AgentMetrics option) \<Rightarrow> string \<Rightarrow> (bool \<times> rat \<times> rat) list \<Rightarrow>
   (string \<Rightarrow> AgentMetrics option)" where
  "recordExecutions agentMetrics agent [] = agentMetrics"
| "recordExecutions agentMetrics agent ((success, conf, t) # calls) =
     recordExecutions (recordAgentExecution agentMetrics agent success conf t) agent calls"

text \<open>
  The mean confidence over the successful invocations of a sequence, in the words of the
  specification (running average confidence, successful calls only).
\<close>

definition mean_successful_confidence :: "(bool \<times> rat \<times> rat) list \<Rightarrow> rat" where
  "mean_successful_confidence calls =
     sum_list (map (\<lambda>call. fst (snd call)) (filter fst calls)) / of_nat (length (filter fst calls))"

section \<open>The retry budget of the registry\<close>

text \<open>
  \<^verbatim>\<open>maxRetries\<close> of each agent in \<^verbatim>\<open>initializeDefaultConfigs\<close> of
  \<^verbatim>\<open>agentManager.ts\<close>. No function of the orchestrator reads it.
\<close>

definition maxRetries :: "string \<Rightarrow> nat" where
  "maxRetries agent =
     (case map_of
        [(''classification_agent'', 2), (''structural_extraction_agent'', 2),
         (''metadata_agent'', 1), (''argentina_fiscal_agent'', 3),
         (''international_trade_agent'', 3), (''conflict_resolution_agent'', 2),
         (''cross_validation_agent'', 2)] agent of
        Some n \<Rightarrow> n
      | None \<Rightarrow> 0)"

text \<open>
  The invoker in the words of the specification, for comparison with the agents above: a
  rejected call is repeated while the retry budget lasts, and the agent falls back only
  on the reply to the last attempt made. Backoff delays are not modelled.
\<close>

fun after_retries :: "nat \<Rightarrow> attempts \<Rightarrow> attempts" where
  "after_retries 0 backend = backend"
| "after_retries (Suc budget) backend =
     (case backend 0 of
        CallFails \<Rightarrow> after_retries budget (\<lambda>i. backend (Suc i))
      | _ \<Rightarrow> backend)"

definition spec_invoke_with_retries ::
  "nat \<Rightarrow> (attempts \<Rightarrow> AgentResult) \<Rightarrow> attempts \<Rightarrow> AgentResult" where
  "spec_invoke_with_retries budget agent backend = agent (after_retries budget backend)"

section \<open>Concrete results and responses used below\<close>

text \<open>
  A structural result of confidence 90 that reports a tax amount of 0, and a fiscal result
  of confidence 70 that reports another amount for the same field.
\<close>

definition zero_tax_result :: AgentResult where
  "zero_tax_result =
     \<lparr>agentName = ''structural_extraction_agent'',
      extractedData = JObj [(''taxAmount'', JNum 0)],
      confidence = 90,
      specialization = [''basic_fields'', ''amounts'', ''dates'', ''parties''],
      conflicts = None\<rparr>"

definition unsure_tax_result :: AgentResult where
  "unsure_tax_result =
     \<lparr>agentName = ''argentina_fiscal_agent'',
      extractedData = JObj [(''taxAmount'', JNum 210)],
      confidence = 70,
      specialization = [''cuit'', ''cae'', ''iva_breakdown'', ''condicion_fiscal''],
      conflicts = None\<rparr>"

text \<open>A classification result of confidence 95 that reports a tax amount as well.\<close>

definition sure_tax_result :: AgentResult where
  "sure_tax_result =
     \<lparr>agentName = ''classification_agent'',
      extractedData = JObj [(''taxAmount'', JNum 2100)],
      confidence = 95,
      specialization = [''document_type'', ''origin_detection'', ''currency_detection''],
      conflicts = None\<rparr>"

text \<open>A result that carries one field.\<close>

definition field_result :: "rat \<Rightarrow> string \<Rightarrow> json \<Rightarrow> AgentResult" where
  "field_result conf name v =
     \<lparr>agentName = ''structural_extraction_agent'',
      extractedData = JObj [(name, v)],
      confidence = conf,
      specialization = [''basic_fields'', ''amounts'', ''dates'', ''parties''],
      conflicts = None\<rparr>"

text \<open>
  The three results of the first iteration in the specification's scenario A, with the
  specialization counts 3, 4 and 2.
\<close>

definition scenario_results :: "AgentResult list" where
  "scenario_results =
     [\<lparr>agentName = ''classification_agent'',
       extractedData = JObj [(''documentType'', JStr ''factura_a''),
                             (''documentOrigin'', JStr ''argentina''), (''confidence'', JNum 90)],
       confidence = 90,
       specialization = [''document_type'', ''origin_detection'', ''currency_detection''],
       conflicts = None\<rparr>,
      \<lparr>agentName = ''structural_extraction_agent'',
       extractedData = JObj [(''invoiceNumber'', JStr ''0001-00001234''), (''totalAmount'', JNum 30250)],
       confidence = 90,
       specialization = [''basic_fields'', ''amounts'', ''dates'', ''parties''],
       conflicts = None\<rparr>,
      \<lparr>agentName = ''metadata_agent'',
       extractedData = JObj [],
       confidence = 60,
       specialization = [''file_analysis'', ''context_inference''],
       conflicts = None\<rparr>]"

text \<open>
  Backends: one that rejects every call, one that answers every call with a given text,
  and one that rejects the first call and answers every later one.
\<close>

definition failing :: attempts where
  "failing i = CallFails"

definition replies :: "string \<Rightarrow> attempts" where
  "replies t i = TextBlock t"

fun fails_once_then :: "string \<Rightarrow> attempts" where
  "fails_once_then t 0 = CallFails"
| "fails_once_then t (Suc i) = TextBlock t"

text \<open>
  Response texts, and \<^verbatim>\<open>JSON.parse\<close> on them. The last text is not JSON.
\<close>

definition text_classified :: string where
  \<open>text_classified =
     ''{"documentType": "factura_a", "documentOrigin": "argentina", "confidence": 90}''\<close>

definition text_confidence_200 :: string where
  \<open>text_confidence_200 = ''{"documentType": "factura_a", "confidence": 200}''\<close>

definition text_total :: string where
  \<open>text_total = ''{"totalAmount": 100}''\<close>

definition text_final :: string where
  \<open>text_final = ''{"finalOptimizedData": {"invoiceNumber": "A-1"}, "confidence": 95}''\<close>

definition text_final_fraction :: string where
  \<open>text_final_fraction =
     ''{"finalOptimizedData": {"invoiceNumber": "A-1"}, "confidence": 97.5}''\<close>

definition text_fiscal :: string where
  \<open>text_fiscal = ''{"totalAmount": 120, "confidence": 80}''\<close>

definition text_apology :: string where
  "text_apology = ''I could not read the document.''"

definition parse_table :: "string \<Rightarrow> json option" where
  "parse_table =
     map_of
       [(text_classified,
           JObj [(''documentType'', JStr ''factura_a''), (''documentOrigin'', JStr ''argentina''),
                 (''confidence'', JNum 90)]),
        (text_confidence_200,
           JObj [(''documentType'', JStr ''factura_a''), (''confidence'', JNum 200)]),
        (text_total, JObj [(''totalAmount'', JNum 100)]),
        (text_final,
           JObj [(''finalOptimizedData'', JObj [(''invoiceNumber'', JStr ''A-1'')]),
                 (''confidence'', JNum 95)]),
        (text_final_fraction,
           JObj [(''finalOptimizedData'', JObj [(''invoiceNumber'', JStr ''A-1'')]),
                 (''confidence'', JNum (195 / 2))]),
        (text_fiscal, JObj [(''totalAmount'', JNum 120), (''confidence'', JNum 80)])]"

definition scan_pdf :: params where
  "scan_pdf = \<lparr>mimeType = ''application/pdf'', fileName = ''scan.pdf''\<rparr>"

text \<open>The specification's scenario C: the backend rejects every call of every agent.\<close>

definition all_failing :: backends where
  "all_failing =
     \<lparr>classification_calls = failing, structural_calls = failing, fiscal_calls = failing,
      trade_calls = failing, conflict_calls = failing, validation_calls = failing\<rparr>"

text \<open>
  A classification response that reports the confidence 200, with a structural agent that
  answers (\<open>over_confident\<close>) or whose call is rejected (\<open>over_confident_conflict\<close>).
\<close>

definition over_confident :: backends where
  "over_confident =
     \<lparr>classification_calls = replies text_confidence_200, structural_calls = replies text_total,
      fiscal_calls = failing, trade_calls = failing, conflict_calls = failing,
      validation_calls = failing\<rparr>"

definition over_confident_conflict :: backends where
  "over_confident_conflict =
     \<lparr>classification_calls = replies text_confidence_200, structural_calls = failing,
      fiscal_calls = failing, trade_calls = failing, conflict_calls = failing,
      validation_calls = failing\<rparr>"

text \<open>
  The call of the classification agent is rejected and the structural agent answers. In
  \<open>fiscal_answers\<close> the fiscal agent answers with another total and reports the
  confidence 80, and the cross validation agent reports the confidence 95; in
  \<open>fractional_final\<close> only the cross validation agent answers besides, and reports
  the confidence 97.5.
\<close>

definition fiscal_answers :: backends where
  "fiscal_answers =
     \<lparr>classification_calls = failing, structural_calls = replies text_total,
      fiscal_calls = replies text_fiscal, trade_calls = failing, conflict_calls = failing,
      validation_calls = replies text_final\<rparr>"

definition fractional_final :: backends where
  "fractional_final =
     \<lparr>classification_calls = failing, structural_calls = replies text_total,
      fiscal_calls = failing, trade_calls = failing, conflict_calls = failing,
      validation_calls = replies text_final_fraction\<rparr>"

text \<open>Consolidated data that hold two document fields.\<close>

definition invoice_data :: json where
  "invoice_data = JObj [(''invoiceNumber'', JStr ''A-1''), (''totalAmount'', JNum 100)]"

text \<open>
  Three invocations of the classification agent: a success with confidence 90, a failure
  (recorded with the fallback confidence 30), a success with confidence 60.
\<close>

definition three_calls :: "(bool \<times> rat \<times> rat) list" where
  "three_calls = [(True, 90, 1200), (False, 30, 800), (True, 60, 1000)]"

section \<open>Properties of the consolidation\<close>

lemma own_props_replace_own:
  "own_props (replace_own x kvs) = kvs"
  by (cases x) simp_all

lemma own_props_assign_prop:
  "map_of (own_props (assign_prop x k v)) =
     (if assigns_own x k then (map_of (own_props x))(k \<mapsto> v) else map_of (own_props x))"
  by (simp add: assign_prop_def own_props_replace_own update_conv')

text \<open>An own property of the consolidated object is what reading its name yields.\<close>

lemma read_prop_own:
  "map_of (own_props x) k = Some v \<Longrightarrow> read_prop x k = Value v"
  by (cases x) (simp_all add: read_prop_def)

lemma assigns_own_present:
  "map_of (own_props x) k = Some v \<Longrightarrow> assigns_own x k"
  by (cases "k = ''__proto__''") (simp_all add: assigns_own_def)

lemma own_props_merge_field:
  "map_of (own_props (merge_field conf c kv)) =
     (if snd kv \<noteq> JNull \<and> snd kv \<noteq> JStr [] \<and>
         (js_not (read_prop c (fst kv)) \<or> 75 < conf) \<and> assigns_own c (fst kv)
      then (map_of (own_props c))(fst kv \<mapsto> snd kv) else map_of (own_props c))"
  by (simp add: merge_field_def own_props_assign_prop)

lemma merge_field_keeps_keys:
  "dom (map_of (own_props c)) \<subseteq> dom (map_of (own_props (merge_field conf c kv)))"
  by (auto simp add: own_props_merge_field)

lemma foldl_merge_keeps_keys:
  "dom (map_of (own_props c)) \<subseteq> dom (map_of (own_props (foldl (merge_field conf) c es)))"
proof (induction es arbitrary: c)
  case Nil
  then show ?case by simp
next
  case (Cons e es)
  have "dom (map_of (own_props c)) \<subseteq> dom (map_of (own_props (merge_field conf c e)))"
    by (rule merge_field_keeps_keys)
  also have "\<dots> \<subseteq> dom (map_of (own_props (foldl (merge_field conf) (merge_field conf c e) es)))"
    by (rule Cons.IH)
  finally show ?case by simp
qed

text \<open>A result of confidence at most 75 leaves a truthy running value alone.\<close>

lemma merge_field_low_keeps_truthy:
  "map_of (own_props c) k = Some v \<Longrightarrow> truthy v \<Longrightarrow> conf \<le> 75 \<Longrightarrow>
   map_of (own_props (merge_field conf c kv)) k = Some v"
  by (auto simp add: own_props_merge_field read_prop_own)

lemma foldl_merge_low_keeps_truthy:
  "map_of (own_props c) k = Some v \<Longrightarrow> truthy v \<Longrightarrow> conf \<le> 75 \<Longrightarrow>
   map_of (own_props (foldl (merge_field conf) c es)) k = Some v"
  by (induction es arbitrary: c) (simp_all add: merge_field_low_keeps_truthy)

text \<open>Entries that offer nothing for a field leave it as it is.\<close>

lemma foldl_merge_not_offered:
  "filter (\<lambda>kv. fst kv = k \<and> snd kv \<noteq> JNull \<and> snd kv \<noteq> JStr []) es = [] \<Longrightarrow>
   map_of (own_props (foldl (merge_field conf) c es)) k = map_of (own_props c) k"
proof (induction es arbitrary: c)
  case Nil
  then show ?case by simp
next
  case (Cons e es)
  from Cons.prems have here: "\<not> (fst e = k \<and> snd e \<noteq> JNull \<and> snd e \<noteq> JStr [])"
    and rest: "filter (\<lambda>kv. fst kv = k \<and> snd kv \<noteq> JNull \<and> snd kv \<noteq> JStr []) es = []"
    by (auto split: if_splits)
  from here have "map_of (own_props (merge_field conf c e)) k = map_of (own_props c) k"
    by (auto simp add: own_props_merge_field)
  with Cons.IH [OF rest] show ?case by simp
qed

text \<open>
  Whatever value a field has after the entries of a result are merged, it had before or
  it is a non-null, non-empty value that the entries offer for the field.
\<close>

lemma foldl_merge_offered_or_kept:
  "map_of (own_props (foldl (merge_field conf) c es)) k = Some v \<Longrightarrow>
   map_of (own_props c) k = Some v \<or>
   v \<in> set (map snd (filter (\<lambda>kv. fst kv = k \<and> snd kv \<noteq> JNull \<and> snd kv \<noteq> JStr []) es))"
proof (induction es arbitrary: c)
  case Nil
  then show ?case by simp
next
  case (Cons e es)
  from Cons.prems
  have "map_of (own_props (foldl (merge_field conf) (merge_field conf c e) es)) k = Some v"
    by simp
  from Cons.IH [OF this] show ?case
  proof
    assume "map_of (own_props (merge_field conf c e)) k = Some v"
    then show ?thesis
      by (auto simp add: own_props_merge_field split: if_splits)
  next
    assume "v \<in> set (map snd
      (filter (\<lambda>kv. fst kv = k \<and> snd kv \<noteq> JNull \<and> snd kv \<noteq> JStr []) es))"
    then show ?thesis by auto
  qed
qed

text \<open>
  A result of confidence above 75 writes the last value it offers for a field; the
  assignment to \<^verbatim>\<open>__proto__\<close> stores a property only where one is stored already.
\<close>

lemma foldl_merge_high:
  assumes "75 < conf" and "k \<noteq> ''__proto__'' \<or> k \<in> dom (map_of (own_props c))"
  shows "map_of (own_props (foldl (merge_field conf) c es)) k =
     (let vs = map snd (filter (\<lambda>kv. fst kv = k \<and> snd kv \<noteq> JNull \<and> snd kv \<noteq> JStr []) es)
      in if vs = [] then map_of (own_props c) k else Some (last vs))"
  using assms(2)
proof (induction es arbitrary: c)
  case Nil
  then show ?case by simp
next
  case (Cons e es)
  from Cons.prems merge_field_keeps_keys [of c conf e]
  have next_ok: "k \<noteq> ''__proto__'' \<or> k \<in> dom (map_of (own_props (merge_field conf c e)))"
    by blast
  from Cons.prems have own: "assigns_own c k"
    by (auto simp add: assigns_own_def)
  show ?case
  proof (cases "fst e = k \<and> snd e \<noteq> JNull \<and> snd e \<noteq> JStr []")
    case True
    with assms(1) own have "map_of (own_props (merge_field conf c e)) k = Some (snd e)"
      by (simp add: own_props_merge_field)
    with True Cons.IH [OF next_ok] show ?thesis
      by (simp add: Let_def)
  next
    case False
    then have "map_of (own_props (merge_field conf c e)) k = map_of (own_props c) k"
      by (auto simp add: own_props_merge_field)
    with False Cons.IH [OF next_ok] show ?thesis
      by (auto simp add: Let_def)
  qed
qed

lemma consolidate_from_append:
  "consolidate_from c (xs @ ys) =
     (case consolidate_from c xs of Inl e \<Rightarrow> Inl e | Inr c' \<Rightarrow> consolidate_from c' ys)"
  by (induction xs arbitrary: c) (simp_all split: sum.splits)

lemma consolidate_from_keeps_keys:
  "consolidate_from c rs = Inr c' \<Longrightarrow>
   dom (map_of (own_props c)) \<subseteq> dom (map_of (own_props c'))"
proof (induction rs arbitrary: c)
  case Nil
  then show ?case by simp
next
  case (Cons r rs)
  from Cons.prems obtain es where es: "object_entries (extractedData r) = Inr es"
    and run: "consolidate_from (foldl (merge_field (confidence r)) c es) rs = Inr c'"
    by (auto split: sum.splits)
  have "dom (map_of (own_props c))
      \<subseteq> dom (map_of (own_props (foldl (merge_field (confidence r)) c es)))"
    by (rule foldl_merge_keeps_keys)
  also have "\<dots> \<subseteq> dom (map_of (own_props c'))"
    using run by (rule Cons.IH)
  finally show ?case .
qed

lemma consolidate_from_not_offered:
  "consolidate_from c rs = Inr c' \<Longrightarrow> list_all (\<lambda>r. offered r k = []) rs \<Longrightarrow>
   map_of (own_props c') k = map_of (own_props c) k"
proof (induction rs arbitrary: c)
  case Nil
  then show ?case by simp
next
  case (Cons r rs)
  from Cons.prems obtain es where es: "object_entries (extractedData r) = Inr es"
    and run: "consolidate_from (foldl (merge_field (confidence r)) c es) rs = Inr c'"
    by (auto split: sum.splits)
  from Cons.prems es
  have "filter (\<lambda>kv. fst kv = k \<and> snd kv \<noteq> JNull \<and> snd kv \<noteq> JStr []) es = []"
    by (simp add: offered_def)
  then have "map_of (own_props (foldl (merge_field (confidence r)) c es)) k
      = map_of (own_props c) k"
    by (rule foldl_merge_not_offered)
  moreover from Cons.prems have "list_all (\<lambda>r. offered r k = []) rs" by simp
  ultimately show ?case using Cons.IH [OF run] by simp
qed

text \<open>
  Whatever value a field has after a consolidation, it had before or it is a non-null,
  non-empty value that one of the results offers for the field.
\<close>

lemma consolidate_from_offered_or_kept:
  "consolidate_from c rs = Inr c' \<Longrightarrow> map_of (own_props c') k = Some v \<Longrightarrow>
   map_of (own_props c) k = Some v \<or> (\<exists>r \<in> set rs. v \<in> set (offered r k))"
proof (induction rs arbitrary: c)
  case Nil
  then show ?case by simp
next
  case (Cons r rs)
  from Cons.prems obtain es where es: "object_entries (extractedData r) = Inr es"
    and run: "consolidate_from (foldl (merge_field (confidence r)) c es) rs = Inr c'"
    by (auto split: sum.splits)
  from Cons.IH [OF run Cons.prems(2)] show ?case
  proof
    assume "map_of (own_props (foldl (merge_field (confidence r)) c es)) k = Some v"
    from foldl_merge_offered_or_kept [OF this] es show ?thesis
      by (auto simp add: offered_def)
  next
    assume "\<exists>r \<in> set rs. v \<in> set (offered r k)"
    then show ?thesis by auto
  qed
qed

text \<open>
  A truthy running value stays as long as every result that offers the field has a
  confidence of at most 75.
\<close>

lemma consolidate_from_low_keeps_truthy:
  "consolidate_from c rs = Inr c' \<Longrightarrow> map_of (own_props c) k = Some v \<Longrightarrow> truthy v \<Longrightarrow>
   list_all (\<lambda>r. offered r k = [] \<or> confidence r \<le> 75) rs \<Longrightarrow>
   map_of (own_props c') k = Some v"
proof (induction rs arbitrary: c)
  case Nil
  then show ?case by simp
next
  case (Cons r rs)
  from Cons.prems obtain es where es: "object_entries (extractedData r) = Inr es"
    and run: "consolidate_from (foldl (merge_field (confidence r)) c es) rs = Inr c'"
    by (auto split: sum.splits)
  from Cons.prems have r: "offered r k = [] \<or> confidence r \<le> 75"
    and rest: "list_all (\<lambda>r. offered r k = [] \<or> confidence r \<le> 75) rs"
    by simp_all
  have "map_of (own_props (foldl (merge_field (confidence r)) c es)) k = Some v"
  proof (cases "confidence r \<le> 75")
    case True
    with Cons.prems show ?thesis by (simp add: foldl_merge_low_keeps_truthy)
  next
    case False
    with r es
    have "filter (\<lambda>kv. fst kv = k \<and> snd kv \<noteq> JNull \<and> snd kv \<noteq> JStr []) es = []"
      by (simp add: offered_def)
    then have "map_of (own_props (foldl (merge_field (confidence r)) c es)) k
        = map_of (own_props c) k"
      by (rule foldl_merge_not_offered)
    with Cons.prems show ?thesis by simp
  qed
  then show ?case using Cons.IH [OF run _ Cons.prems(3) rest] by simp
qed

text \<open>
  While the values carried for a field are truthy, a truthy running value is replaced by
  results of confidence above 75 only, so that the value at the end is the one at the
  start or a value that a result of confidence above 75 carries.
\<close>

lemma merge_field_truthy_source:
  assumes "map_of (own_props c) k = Some w" and "truthy w"
  shows "map_of (own_props (merge_field conf c e)) k = Some w \<or>
     75 < conf \<and> fst e = k \<and> snd e \<noteq> JNull \<and> snd e \<noteq> JStr [] \<and>
     map_of (own_props (merge_field conf c e)) k = Some (snd e)"
  using assms by (auto simp add: own_props_merge_field read_prop_own)

lemma foldl_merge_truthy_source:
  assumes "map_of (own_props c) k = Some w" and "truthy w"
    and "list_all truthy
      (map snd (filter (\<lambda>kv. fst kv = k \<and> snd kv \<noteq> JNull \<and> snd kv \<noteq> JStr []) es))"
  shows "\<exists>w'. map_of (own_props (foldl (merge_field conf) c es)) k = Some w' \<and> truthy w' \<and>
     (w' = w \<or>
      75 < conf \<and>
      w' \<in> set (map snd (filter (\<lambda>kv. fst kv = k \<and> snd kv \<noteq> JNull \<and> snd kv \<noteq> JStr []) es)))"
  using assms
proof (induction es arbitrary: c w)
  case Nil
  then show ?case by simp
next
  case (Cons e es)
  let ?offers = "\<lambda>es. map snd
    (filter (\<lambda>kv. fst kv = k \<and> snd kv \<noteq> JNull \<and> snd kv \<noteq> JStr []) es)"
  from Cons.prems(3) have rest: "list_all truthy (?offers es)"
    by (auto split: if_splits)
  from merge_field_truthy_source [OF Cons.prems(1,2), of conf e]
  show ?case
  proof
    assume same: "map_of (own_props (merge_field conf c e)) k = Some w"
    from Cons.IH [OF same Cons.prems(2) rest] show ?thesis by auto
  next
    assume new: "75 < conf \<and> fst e = k \<and> snd e \<noteq> JNull \<and> snd e \<noteq> JStr [] \<and>
      map_of (own_props (merge_field conf c e)) k = Some (snd e)"
    with Cons.prems(3) have t: "truthy (snd e)" by simp
    from new have here: "map_of (own_props (merge_field conf c e)) k = Some (snd e)"
      by blast
    from Cons.IH [OF here t rest] new show ?thesis by auto
  qed
qed

lemma consolidate_from_truthy_source:
  assumes "consolidate_from c rs = Inr c'"
    and "map_of (own_props c) k = Some w" and "truthy w"
    and "list_all (\<lambda>r. list_all truthy (offered r k)) rs"
  shows "\<exists>w'. map_of (own_props c') k = Some w' \<and> truthy w' \<and>
     (w' = w \<or> (\<exists>r \<in> set rs. 75 < confidence r \<and> w' \<in> set (offered r k)))"
  using assms
proof (induction rs arbitrary: c w)
  case Nil
  then show ?case by simp
next
  case (Cons r rs)
  from Cons.prems(1) obtain es where es: "object_entries (extractedData r) = Inr es"
    and run: "consolidate_from (foldl (merge_field (confidence r)) c es) rs = Inr c'"
    by (auto split: sum.splits)
  from Cons.prems(4) es
  have here: "list_all truthy
      (map snd (filter (\<lambda>kv. fst kv = k \<and> snd kv \<noteq> JNull \<and> snd kv \<noteq> JStr []) es))"
    and rest: "list_all (\<lambda>r. list_all truthy (offered r k)) rs"
    by (simp_all add: offered_def)
  from foldl_merge_truthy_source [OF Cons.prems(2,3) here, of "confidence r"] es
  obtain w1 where w1: "map_of (own_props (foldl (merge_field (confidence r)) c es)) k = Some w1"
    and t1: "truthy w1"
    and src: "w1 = w \<or> 75 < confidence r \<and> w1 \<in> set (offered r k)"
    by (auto simp add: offered_def)
  from Cons.IH [OF run w1 t1 rest] obtain w' where
    w': "map_of (own_props c') k = Some w'" and t': "truthy w'"
    and src': "w' = w1 \<or> (\<exists>r \<in> set rs. 75 < confidence r \<and> w' \<in> set (offered r k))"
    by blast
  from src src' have "w' = w \<or>
      (\<exists>r' \<in> set (r # rs). 75 < confidence r' \<and> w' \<in> set (offered r' k))"
    by auto
  with w' t' show ?case by blast
qed

text \<open>
  The last result of confidence above 75 that offers a field decides it, when its value
  is truthy or no later result offers the field. (The name \<^verbatim>\<open>__proto__\<close> is apart:
  an assignment to it stores no property; what a later result of lower confidence does
  to a stored 0 or \<^verbatim>\<open>false\<close> is the subject of C1 and C10.)
\<close>

lemma consolidate_from_last_high:
  assumes run: "consolidate_from c0 (xs @ r # ys) = Inr c"
    and high: "75 < confidence r"
    and carries: "offered r F \<noteq> []"
    and name: "F \<noteq> ''__proto__''"
    and later: "list_all (\<lambda>r'. offered r' F = []) ys \<or>
      truthy (last (offered r F)) \<and> list_all (\<lambda>r'. offered r' F = [] \<or> confidence r' \<le> 75) ys"
  shows "map_of (own_props c) F = Some (last (offered r F))"
proof -
  from run obtain c1 where c1: "consolidate_from c1 (r # ys) = Inr c"
    by (auto simp add: consolidate_from_append split: sum.splits)
  then obtain es where es: "object_entries (extractedData r) = Inr es"
    and rest: "consolidate_from (foldl (merge_field (confidence r)) c1 es) ys = Inr c"
    by (auto split: sum.splits)
  from name have "F \<noteq> ''__proto__'' \<or> F \<in> dom (map_of (own_props c1))" by simp
  from foldl_merge_high [OF high this] es carries
  have here: "map_of (own_props (foldl (merge_field (confidence r)) c1 es)) F
      = Some (last (offered r F))"
    by (simp add: offered_def Let_def)
  from later show ?thesis
  proof
    assume "list_all (\<lambda>r'. offered r' F = []) ys"
    from consolidate_from_not_offered [OF rest this] here show ?thesis by simp
  next
    assume "truthy (last (offered r F)) \<and>
      list_all (\<lambda>r'. offered r' F = [] \<or> confidence r' \<le> 75) ys"
    with consolidate_from_low_keeps_truthy [OF rest here] show ?thesis by simp
  qed
qed

lemma object_entries_total:
  "j \<noteq> JNull \<Longrightarrow> \<exists>es. object_entries j = Inr es"
  by (cases j) simp_all

lemma consolidate_from_total:
  "list_all (\<lambda>r. extractedData r \<noteq> JNull) rs \<Longrightarrow> \<exists>c'. consolidate_from c rs = Inr c'"
proof (induction rs arbitrary: c)
  case Nil
  then show ?case by simp
next
  case (Cons r rs)
  from Cons.prems obtain es where "object_entries (extractedData r) = Inr es"
    using object_entries_total [of "extractedData r"] by auto
  moreover from Cons.prems have "list_all (\<lambda>r. extractedData r \<noteq> JNull) rs" by simp
  ultimately show ?case using Cons.IH by simp
qed

text \<open>The consolidation throws exactly when the data of some result are \<^verbatim>\<open>null\<close>.\<close>

lemma consolidate_from_fails:
  "(\<exists>c'. consolidate_from c rs = Inr c') = list_all (\<lambda>r. extractedData r \<noteq> JNull) rs"
proof (induction rs arbitrary: c)
  case Nil
  then show ?case by simp
next
  case (Cons r rs)
  show ?case
  proof (cases "extractedData r = JNull")
    case True
    then show ?thesis by simp
  next
    case False
    then obtain es where "object_entries (extractedData r) = Inr es"
      using object_entries_total [of "extractedData r"] by auto
    with False Cons.IH show ?thesis by simp
  qed
qed

text \<open>What a consolidation returns is an object, with the own properties it collected.\<close>

lemma merge_field_object:
  "is_object c \<Longrightarrow> is_object (merge_field conf c kv)"
  by (cases c) (simp_all add: merge_field_def assign_prop_def)

lemma consolidate_from_object:
  "consolidate_from c rs = Inr c' \<Longrightarrow> is_object c \<Longrightarrow> is_object c'"
proof (induction rs arbitrary: c)
  case Nil
  then show ?case by simp
next
  case (Cons r rs)
  from Cons.prems obtain es where es: "object_entries (extractedData r) = Inr es"
    and run: "consolidate_from (foldl (merge_field (confidence r)) c es) rs = Inr c'"
    by (auto split: sum.splits)
  have "is_object c \<Longrightarrow> is_object (foldl (merge_field (confidence r)) c es)" for c
    by (induction es arbitrary: c) (simp_all add: merge_field_object)
  with Cons.prems have "is_object (foldl (merge_field (confidence r)) c es)" by simp
  with Cons.IH [OF run] show ?case .
qed

text \<open>
  The names that the consolidated object inherits. An assignment to \<^verbatim>\<open>__proto__\<close>
  stores no property: it is ignored for a string and replaces the prototype for an
  object, whose properties are then read through the consolidated object. A name of
  \<^verbatim>\<open>Object.prototype\<close> reads as a function, so that only a result of confidence
  above 75 sets such a field.
\<close>

lemma inherited_names_in_consolidation:
  "consolidateAgentResults
     [field_result 90 ''__proto__'' (JStr ''a''), field_result 90 ''__proto__'' (JStr ''b'')]
     = Inr (JObj [])"
  "consolidateAgentResults
     [field_result 90 ''__proto__'' (JObj [(''currency'', JStr ''ARS'')]),
      field_result 70 ''currency'' (JStr ''USD'')]
     = Inr (JChained [] (JObj [(''currency'', JStr ''ARS'')]))"
  "consolidateAgentResults [field_result 70 ''constructor'' (JStr ''a'')] = Inr (JObj [])"
  "consolidateAgentResults [field_result 90 ''constructor'' (JStr ''a'')]
     = Inr (JObj [(''constructor'', JStr ''a'')])"
  by code_simp+

section \<open>Properties of the overall confidence\<close>

lemma foldl_add_sum_list:
  "foldl (\<lambda>s r. s + f r) a rs = (a::rat) + sum_list (map f rs)"
  by (induction rs arbitrary: a) simp_all

lemma rat_of_nat_sum_list:
  "(of_nat (sum_list (map f rs)) :: rat) = sum_list (map (\<lambda>r. of_nat (f r)) rs)"
  by (induction rs) simp_all

lemma calculateOverallConfidence_sums:
  "rs \<noteq> [] \<Longrightarrow>
   calculateOverallConfidence rs =
     round_quotient (\<Sum>r\<leftarrow>rs. confidence r * of_nat (length (specialization r)))
       (\<Sum>r\<leftarrow>rs. of_nat (length (specialization r)))"
  by (simp add: calculateOverallConfidence_def foldl_add_sum_list Let_def)

lemma round_quotient_mean:
  "b \<noteq> 0 \<Longrightarrow> round_quotient a b = Num (of_int (round (a / b)))"
  by (simp add: round_quotient_def round_def)

lemma weighted_sum_bounds:
  assumes "list_all (\<lambda>r. 0 \<le> confidence r \<and> confidence r \<le> 100) rs"
  shows "0 \<le> (\<Sum>r\<leftarrow>rs. confidence r * of_nat (length (specialization r))) \<and>
         (\<Sum>r\<leftarrow>rs. confidence r * of_nat (length (specialization r)))
           \<le> 100 * (\<Sum>r\<leftarrow>rs. of_nat (length (specialization r)))"
  using assms
proof (induction rs)
  case Nil
  then show ?case by simp
next
  case (Cons r rs)
  then have r: "0 \<le> confidence r" "confidence r \<le> 100"
    and rest: "list_all (\<lambda>r. 0 \<le> confidence r \<and> confidence r \<le> 100) rs" by simp_all
  have w: "0 \<le> (of_nat (length (specialization r)) :: rat)" by simp
  from r w have "0 \<le> confidence r * of_nat (length (specialization r))" by simp
  moreover from r(2) w
  have "confidence r * of_nat (length (specialization r))
      \<le> 100 * of_nat (length (specialization r))"
    by (rule mult_right_mono)
  ultimately show ?case using Cons.IH [OF rest] by (simp add: algebra_simps)
qed

lemma round_quotient_bounded:
  assumes "0 < b" and "0 \<le> a" and "a \<le> 100 * b"
  shows "\<exists>c. round_quotient a b = Num c \<and> 0 \<le> c \<and> c \<le> 100 \<and> c = of_int \<lfloor>c\<rfloor>"
proof -
  let ?x = "a / b"
  from assms have lo: "0 \<le> ?x" by simp
  from assms have hi: "?x \<le> 100" by (simp add: pos_divide_le_eq)
  from lo have "0 \<le> \<lfloor>?x + 1 / 2\<rfloor>" by (simp add: le_floor_iff)
  then have a: "(0::rat) \<le> of_int \<lfloor>?x + 1 / 2\<rfloor>" by simp
  from hi have "\<lfloor>?x + 1 / 2\<rfloor> \<le> 100" by (simp add: floor_le_iff)
  then have "(of_int \<lfloor>?x + 1 / 2\<rfloor> :: rat) \<le> of_int 100" by (simp only: of_int_le_iff)
  then have b: "(of_int \<lfloor>?x + 1 / 2\<rfloor> :: rat) \<le> 100" by simp
  from a b assms(1) show ?thesis by (simp add: round_quotient_def)
qed

lemma total_weight_positive:
  "rs \<noteq> [] \<Longrightarrow> list_all (\<lambda>r. specialization r \<noteq> []) rs \<Longrightarrow>
   (0::rat) < (\<Sum>r\<leftarrow>rs. of_nat (length (specialization r)))"
proof (induction rs)
  case Nil
  then show ?case by simp
next
  case (Cons r rs)
  have rest: "(0::rat) \<le> (\<Sum>r\<leftarrow>rs. of_nat (length (specialization r)))"
    by (rule sum_list_nonneg) auto
  from Cons.prems obtain n where "length (specialization r) = Suc n"
    by (cases "specialization r") auto
  then have "(0::rat) < of_nat (length (specialization r))" by simp
  from this rest
  have "(0::rat) < of_nat (length (specialization r)) +
      (\<Sum>r\<leftarrow>rs. of_nat (length (specialization r)))"
    by (rule add_pos_nonneg)
  then show ?case by simp
qed

lemma calculateOverallConfidence_bounded:
  assumes "list_all (\<lambda>r. 0 \<le> confidence r \<and> confidence r \<le> 100) rs"
    and "list_all (\<lambda>r. specialization r \<noteq> []) rs"
  shows "\<exists>c. calculateOverallConfidence rs = Num c \<and> 0 \<le> c \<and> c \<le> 100 \<and>
    c = of_int \<lfloor>c\<rfloor>"
proof (cases "rs = []")
  case True
  then show ?thesis by (simp add: calculateOverallConfidence_def)
next
  case False
  from False assms(2) have "(0::rat) < (\<Sum>r\<leftarrow>rs. of_nat (length (specialization r)))"
    by (rule total_weight_positive)
  with weighted_sum_bounds [OF assms(1)] show ?thesis
    by (simp add: calculateOverallConfidence_sums [OF False] round_quotient_bounded)
qed

lemma calculateOverallConfidence_mean:
  assumes "rs \<noteq> []" and "0 < (\<Sum>r\<leftarrow>rs. length (specialization r))"
  shows "calculateOverallConfidence rs = Num (of_int (round (spec_weighted_mean rs)))"
proof -
  let ?w = "\<lambda>r. (of_nat (length (specialization r)) :: rat)"
  have "\<And>n::nat. 0 < n \<Longrightarrow> (of_nat n :: rat) \<noteq> 0" by simp
  from this [OF assms(2)]
  have pos: "(\<Sum>r\<leftarrow>rs. ?w r) \<noteq> 0"
    unfolding rat_of_nat_sum_list .
  from assms(1) have "calculateOverallConfidence rs =
      round_quotient (\<Sum>r\<leftarrow>rs. confidence r * ?w r) (\<Sum>r\<leftarrow>rs. ?w r)"
    by (rule calculateOverallConfidence_sums)
  also have "\<dots> = Num (of_int (round ((\<Sum>r\<leftarrow>rs. confidence r * ?w r) / (\<Sum>r\<leftarrow>rs. ?w r))))"
    using pos by (rule round_quotient_mean)
  finally show ?thesis
    by (simp add: spec_weighted_mean_def)
qed

lemma total_tags_positive:
  "rs \<noteq> [] \<Longrightarrow> list_all (\<lambda>r. specialization r \<noteq> []) rs \<Longrightarrow>
   0 < (\<Sum>r\<leftarrow>rs. length (specialization r))"
  by (cases rs) auto

lemma calculateOverallConfidence_mean_of_agents:
  assumes "rs \<noteq> []" and "list_all (\<lambda>r. specialization r \<noteq> []) rs"
  shows "calculateOverallConfidence rs = Num (of_int (round (spec_weighted_mean rs)))"
  using assms(1) total_tags_positive [OF assms]
  by (rule calculateOverallConfidence_mean)

section \<open>The results of the agents\<close>

lemma configured_specializations:
  "specializations_or ''classification_agent'' f =
     [''document_type'', ''origin_detection'', ''currency_detection'']"
  "specializations_or ''argentina_fiscal_agent'' f =
     [''cuit'', ''cae'', ''iva_breakdown'', ''condicion_fiscal'']"
  "specializations_or ''international_trade_agent'' f =
     [''international_trade'', ''hs_codes'', ''incoterms'', ''banking'', ''ein_detection'',
      ''line_items'', ''observations'']"
  "specializations_or ''cross_validation_agent'' f =
     [''mathematical_validation'', ''logical_coherence'', ''cross_reference'']"
  by (simp_all add: specializations_or_def agentConfigurations_def)

lemma classification_specialization:
  "specialization (runClassificationAgent parse b) =
     [''document_type'', ''origin_detection'', ''currency_detection'']"
  by (simp add: runClassificationAgent_def classification_fallback_def configured_specializations
      split: backend_reply.splits json.splits)

lemma structural_specialization:
  "specialization (runStructuralExtractionAgent parse ps b) \<noteq> []"
  by (simp add: runStructuralExtractionAgent_def structural_fallback_def
      split: backend_reply.splits option.splits)

lemma metadata_specialization:
  "specialization (runMetadataAgent ps) = [''file_analysis'', ''context_inference'']"
  by (simp add: runMetadataAgent_def)

lemma fiscal_specialization:
  "specialization (runArgentineFiscalAgent parse b) =
     [''cuit'', ''cae'', ''iva_breakdown'', ''condicion_fiscal'']"
  by (simp add: runArgentineFiscalAgent_def fiscal_fallback_def configured_specializations
      split: backend_reply.splits json.splits)

lemma trade_specialization:
  "specialization (runInternationalTradeAgent parse b) =
     [''international_trade'', ''hs_codes'', ''incoterms'', ''banking'', ''ein_detection'',
      ''line_items'', ''observations'']"
  by (simp add: runInternationalTradeAgent_def trade_fallback_def configured_specializations
      split: backend_reply.splits json.splits)

lemma conflict_specialization:
  "specialization (runConflictResolutionAgent parse b) \<noteq> []"
  by (simp add: runConflictResolutionAgent_def conflict_fallback_def split: backend_reply.splits)

lemma specialized_specializations:
  "list_all (\<lambda>r. specialization r \<noteq> []) (specializedResults parse be prev)"
  by (simp add: specializedResults_def Let_def fiscal_specialization trade_specialization
      conflict_specialization)

lemma classification_data_not_null:
  "extractedData (runClassificationAgent parse b) \<noteq> JNull"
  by (simp add: runClassificationAgent_def classification_fallback_def
      split: backend_reply.splits json.splits)

lemma fiscal_data_not_null:
  "extractedData (runArgentineFiscalAgent parse b) \<noteq> JNull"
  by (simp add: runArgentineFiscalAgent_def fiscal_fallback_def
      split: backend_reply.splits json.splits)

lemma trade_data_not_null:
  "extractedData (runInternationalTradeAgent parse b) \<noteq> JNull"
  by (simp add: runInternationalTradeAgent_def trade_fallback_def
      split: backend_reply.splits json.splits)

lemma specialized_data_not_null:
  "list_all (\<lambda>r. extractedData r \<noteq> JNull) (specializedResults parse be prev)"
  by (simp add: specializedResults_def Let_def identifyConflicts_def fiscal_data_not_null
      trade_data_not_null)

lemma agent_names:
  "agentName (runArgentineFiscalAgent parse b) = ''argentina_fiscal_agent''"
  "agentName (runInternationalTradeAgent parse b) = ''international_trade_agent''"
  "agentName (runConflictResolutionAgent parse b) = ''conflict_resolution_agent''"
  by (simp_all add: runArgentineFiscalAgent_def fiscal_fallback_def
      runInternationalTradeAgent_def trade_fallback_def
      runConflictResolutionAgent_def conflict_fallback_def
      split: backend_reply.splits json.splits)

text \<open>
  The agents that the second iteration starts do not depend on the replies to their calls:
  with the call of the fiscal or of the trade agent rejected, the same agents return
  their results, the rejected one its fallback.
\<close>

lemma specialized_when_a_call_fails:
  assumes "backend 0 = CallFails"
  shows "specializedResults parse (be\<lparr>fiscal_calls := backend\<rparr>) prev =
       map (\<lambda>r. if agentName r = ''argentina_fiscal_agent'' then fiscal_fallback else r)
         (specializedResults parse be prev)"
    and "specializedResults parse (be\<lparr>trade_calls := backend\<rparr>) prev =
       map (\<lambda>r. if agentName r = ''international_trade_agent'' then trade_fallback else r)
         (specializedResults parse be prev)"
proof -
  from assms have f: "runArgentineFiscalAgent parse backend = fiscal_fallback"
    by (simp add: runArgentineFiscalAgent_def)
  from assms have t: "runInternationalTradeAgent parse backend = trade_fallback"
    by (simp add: runInternationalTradeAgent_def)
  show "specializedResults parse (be\<lparr>fiscal_calls := backend\<rparr>) prev =
       map (\<lambda>r. if agentName r = ''argentina_fiscal_agent'' then fiscal_fallback else r)
         (specializedResults parse be prev)"
    by (simp add: specializedResults_def Let_def identifyConflicts_def f agent_names)
  show "specializedResults parse (be\<lparr>trade_calls := backend\<rparr>) prev =
       map (\<lambda>r. if agentName r = ''international_trade_agent'' then trade_fallback else r)
         (specializedResults parse be prev)"
    by (simp add: specializedResults_def Let_def identifyConflicts_def t agent_names)
qed

section \<open>The shape of a run\<close>

lemma iteration1_results:
  assumes "runIteration1_BaseAnalysis parse ps be = Inr it1"
  shows "agentResults it1 =
           [runClassificationAgent parse (classification_calls be),
            runStructuralExtractionAgent parse ps (structural_calls be),
            runMetadataAgent ps]"
    and "overallConfidence it1 = calculateOverallConfidence (agentResults it1)"
    and "requiresNextIteration it1 =
           (js_less (overallConfidence it1) 85 \<or> hasConflicts (agentResults it1))"
    and "consolidateAgentResults (agentResults it1) = Inr (consolidatedData it1)"
  using assms
  by (auto simp add: runIteration1_BaseAnalysis_def Let_def split: sum.splits)

lemma iteration1_data_object:
  assumes "runIteration1_BaseAnalysis parse ps be = Inr it1"
  shows "is_object (consolidatedData it1)"
  using iteration1_results(4) [OF assms]
  by (auto simp add: consolidateAgentResults_def dest: consolidate_from_object)

lemma iteration2_results:
  "runIteration2_SpecializedRefinement parse be prev = Inr it2 \<Longrightarrow>
   agentResults it2 = specializedResults parse be prev \<and>
   overallConfidence it2 = calculateOverallConfidence (specializedResults parse be prev) \<and>
   consolidateAgentResults (agentResults prev @ specializedResults parse be prev)
     = Inr (consolidatedData it2)"
  by (auto simp add: runIteration2_SpecializedRefinement_def Let_def split: if_splits sum.splits)

text \<open>The second iteration consolidates from the object of the first.\<close>

lemma iteration2_consolidates_from_iteration1:
  assumes "runIteration1_BaseAnalysis parse ps be = Inr it1"
  shows "consolidateAgentResults (agentResults it1 @ specializedResults parse be it1) =
       consolidate_from (consolidatedData it1) (specializedResults parse be it1)"
  using iteration1_results(4) [OF assms]
  by (simp add: consolidateAgentResults_def consolidate_from_append)

text \<open>
  The first iteration completes exactly when the response of the structural agent is not
  the value \<^verbatim>\<open>null\<close>, and the run completes whenever the first iteration does.
\<close>

lemma iteration1_completes:
  "(\<exists>it1. runIteration1_BaseAnalysis parse ps be = Inr it1) =
   (extractedData (runStructuralExtractionAgent parse ps (structural_calls be)) \<noteq> JNull)"
proof -
  let ?rs = "[runClassificationAgent parse (classification_calls be),
       runStructuralExtractionAgent parse ps (structural_calls be),
       runMetadataAgent ps]"
  have "(\<exists>it1. runIteration1_BaseAnalysis parse ps be = Inr it1) =
      (\<exists>c. consolidate_from (JObj []) ?rs = Inr c)"
    by (auto simp add: runIteration1_BaseAnalysis_def consolidateAgentResults_def Let_def
        split: sum.splits)
  also have "\<dots> = list_all (\<lambda>r. extractedData r \<noteq> JNull) ?rs"
    by (rule consolidate_from_fails)
  also have "\<dots> =
      (extractedData (runStructuralExtractionAgent parse ps (structural_calls be)) \<noteq> JNull)"
    by (simp add: classification_data_not_null runMetadataAgent_def)
  finally show ?thesis .
qed

lemma iteration1_total:
  assumes "extractedData (runStructuralExtractionAgent parse ps (structural_calls be)) \<noteq> JNull"
  shows "\<exists>it1. runIteration1_BaseAnalysis parse ps be = Inr it1"
  using assms by (simp add: iteration1_completes)

text \<open>
  The second iteration, on whatever iteration it is given, completes exactly when the data
  it reads are not \<^verbatim>\<open>null\<close>: the replies to its own agents do not matter.
\<close>

lemma iteration2_completes:
  "(\<exists>it2. runIteration2_SpecializedRefinement parse be prev = Inr it2) =
   (consolidatedData prev \<noteq> JNull \<and> list_all (\<lambda>r. extractedData r \<noteq> JNull) (agentResults prev))"
proof (cases "consolidatedData prev = JNull")
  case True
  then show ?thesis by (simp add: runIteration2_SpecializedRefinement_def)
next
  case False
  let ?rs = "agentResults prev @ specializedResults parse be prev"
  from False have "(\<exists>it2. runIteration2_SpecializedRefinement parse be prev = Inr it2) =
      (\<exists>c. consolidate_from (JObj []) ?rs = Inr c)"
    by (auto simp add: runIteration2_SpecializedRefinement_def consolidateAgentResults_def Let_def
        split: sum.splits)
  also have "\<dots> = list_all (\<lambda>r. extractedData r \<noteq> JNull) ?rs"
    by (rule consolidate_from_fails)
  also have "\<dots> = list_all (\<lambda>r. extractedData r \<noteq> JNull) (agentResults prev)"
    by (simp add: specialized_data_not_null)
  finally show ?thesis using False by simp
qed

lemma iteration2_total:
  assumes "runIteration1_BaseAnalysis parse ps be = Inr it1"
  shows "\<exists>it2. runIteration2_SpecializedRefinement parse be it1 = Inr it2"
proof -
  from consolidate_from_total [OF specialized_data_not_null] obtain c2 where
    "consolidate_from (consolidatedData it1) (specializedResults parse be it1) = Inr c2"
    by blast
  moreover from iteration1_data_object [OF assms] have "consolidatedData it1 \<noteq> JNull"
    by auto
  ultimately show ?thesis
    using iteration2_consolidates_from_iteration1 [OF assms]
    by (simp add: runIteration2_SpecializedRefinement_def Let_def)
qed

lemma run_total:
  assumes "runIteration1_BaseAnalysis parse ps be = Inr it1"
  shows "\<exists>run. processDocumentOrchestrated parse ps be = Inr run \<and> hd (iterations run) = it1"
proof -
  from iteration2_total [OF assms] obtain it2 where
    "runIteration2_SpecializedRefinement parse be it1 = Inr it2" by blast
  with assms show ?thesis
    by (simp add: processDocumentOrchestrated_def finish_run_def)
qed

lemma run_shape:
  assumes "processDocumentOrchestrated parse ps be = Inr run"
  obtains it1 where "runIteration1_BaseAnalysis parse ps be = Inr it1"
      and "iterations run = [it1]"
  | it1 it2 where "runIteration1_BaseAnalysis parse ps be = Inr it1"
      and "runIteration2_SpecializedRefinement parse be it1 = Inr it2"
      and "iterations run = [it1, it2]"
  | it1 it2 where "runIteration1_BaseAnalysis parse ps be = Inr it1"
      and "runIteration2_SpecializedRefinement parse be it1 = Inr it2"
      and "iterations run = [it1, it2, runIteration3_FinalVerification parse be it2]"
  using assms
  by (auto simp add: processDocumentOrchestrated_def finish_run_def
      split: sum.splits if_splits)

lemma run_completes:
  "(\<exists>run. processDocumentOrchestrated parse ps be = Inr run) =
   (extractedData (runStructuralExtractionAgent parse ps (structural_calls be)) \<noteq> JNull)"
proof
  assume "\<exists>run. processDocumentOrchestrated parse ps be = Inr run"
  then obtain it1 where "runIteration1_BaseAnalysis parse ps be = Inr it1"
    by (auto elim: run_shape)
  then have "\<exists>it1. runIteration1_BaseAnalysis parse ps be = Inr it1" by blast
  then show "extractedData (runStructuralExtractionAgent parse ps (structural_calls be)) \<noteq> JNull"
    by (simp add: iteration1_completes)
next
  assume "extractedData (runStructuralExtractionAgent parse ps (structural_calls be)) \<noteq> JNull"
  from iteration1_total [OF this] obtain it1 where
    "runIteration1_BaseAnalysis parse ps be = Inr it1" by blast
  from run_total [OF this] show "\<exists>run. processDocumentOrchestrated parse ps be = Inr run"
    by blast
qed

lemma iteration1_bounded:
  assumes "runIteration1_BaseAnalysis parse ps be = Inr it1"
    and "list_all (\<lambda>r. 0 \<le> confidence r \<and> confidence r \<le> 100) (agentResults it1)"
  shows "\<exists>c. overallConfidence it1 = Num c \<and> 0 \<le> c \<and> c \<le> 100 \<and> c = of_int \<lfloor>c\<rfloor>"
proof -
  have "list_all (\<lambda>r. specialization r \<noteq> []) (agentResults it1)"
    by (simp add: iteration1_results(1) [OF assms(1)] classification_specialization
        structural_specialization metadata_specialization)
  with assms(2) show ?thesis
    unfolding iteration1_results(2) [OF assms(1)]
    by (rule calculateOverallConfidence_bounded)
qed

lemma iteration2_bounded:
  assumes "runIteration2_SpecializedRefinement parse be prev = Inr it2"
    and "list_all (\<lambda>r. 0 \<le> confidence r \<and> confidence r \<le> 100) (agentResults it2)"
  shows "\<exists>c. overallConfidence it2 = Num c \<and> 0 \<le> c \<and> c \<le> 100 \<and> c = of_int \<lfloor>c\<rfloor>"
proof -
  from iteration2_results [OF assms(1)]
  have res: "agentResults it2 = specializedResults parse be prev"
    and oc: "overallConfidence it2 = calculateOverallConfidence (agentResults it2)" by simp_all
  have "list_all (\<lambda>r. specialization r \<noteq> []) (agentResults it2)"
    unfolding res by (rule specialized_specializations)
  with assms(2) show ?thesis
    unfolding oc by (rule calculateOverallConfidence_bounded)
qed

lemma iteration3_bounded:
  assumes "list_all (\<lambda>r. 0 \<le> confidence r \<and> confidence r \<le> 100)
             (agentResults (runIteration3_FinalVerification parse be prev))"
  shows "\<exists>c. overallConfidence (runIteration3_FinalVerification parse be prev) = Num c \<and>
             0 \<le> c \<and> c \<le> 100 \<and>
             (list_all (\<lambda>r. confidence r = of_int \<lfloor>confidence r\<rfloor>)
                (agentResults (runIteration3_FinalVerification parse be prev)) \<longrightarrow>
              c = of_int \<lfloor>c\<rfloor>)"
  using assms by (simp add: runIteration3_FinalVerification_def Let_def)

section \<open>Claims about the consolidation\<close>

text \<open>
  C1. The claim: a field with a non-null, non-empty value in a new result overwrites the
  running value if and only if the running value is absent or the new confidence exceeds
  75; in particular a result of confidence at most 75 leaves an already set field as it
  is. The source tests the running value with \<^verbatim>\<open>!consolidated[key]\<close>, so a stored
  0 counts as absent: after the structural result the tax amount is set to 0, and the
  fiscal result of confidence 70 replaces it by 210.
\<close>

theorem C1_low_confidence_replaces_stored_zero:
  "consolidateAgentResults [zero_tax_result] = Inr (JObj [(''taxAmount'', JNum 0)]) \<and>
   confidence unsure_tax_result = 70 \<and>
   offered unsure_tax_result ''taxAmount'' = [JNum 210] \<and>
   consolidateAgentResults [zero_tax_result, unsure_tax_result] =
     Inr (JObj [(''taxAmount'', JNum 210)])"
  by code_simp

text \<open>
  C10. The claim: when two results of confidence above 75 both carry a non-null,
  non-empty value for a field, the consolidated object has the value of the later of the
  two. Here the two are a classification result of confidence 95, with the tax amount
  2100, and after it a structural result of confidence 90, with the tax amount 0. After
  these two the field holds 0, the value of the later one; the next result, of
  confidence 70, replaces it by 210, since the stored 0 counts as absent in
  \<^verbatim>\<open>!consolidated[key]\<close> (the defect of C1). For a truthy value and a field name
  other than \<^verbatim>\<open>__proto__\<close> the claim holds, whatever results of confidence at most
  75 follow: \<open>consolidate_from_last_high\<close>.
\<close>

theorem C10_later_high_confidence_value_replaced:
  "confidence sure_tax_result = 95 \<and>
   offered sure_tax_result ''taxAmount'' = [JNum 2100] \<and>
   confidence zero_tax_result = 90 \<and>
   offered zero_tax_result ''taxAmount'' = [JNum 0] \<and>
   confidence unsure_tax_result = 70 \<and>
   consolidateAgentResults [sure_tax_result, zero_tax_result] =
     Inr (JObj [(''taxAmount'', JNum 0)]) \<and>
   consolidateAgentResults [sure_tax_result, zero_tax_result, unsure_tax_result] =
     Inr (JObj [(''taxAmount'', JNum 210)])"
  by code_simp

section \<open>Claims about the overall confidence\<close>

text \<open>
  C4, as stated, fails for the third iteration: the cross validation agent reports the
  confidence 97.5, and the overall confidence of the iteration is that number as it is,
  where the weighted mean over the one result of the iteration, rounded to the nearest
  integer, is 98. (The first two iterations of the same run round: 63 and 47.)
\<close>

theorem C4_third_iteration_unrounded_counterexample:
  "map_sum id (map (map confidence \<circ> agentResults) \<circ> iterations)
     (processDocumentOrchestrated parse_table scan_pdf fractional_final) =
     Inr [[30, 90, 60], [50, 45], [195 / 2]] \<and>
   map_sum id (map overallConfidence \<circ> iterations)
     (processDocumentOrchestrated parse_table scan_pdf fractional_final) =
     Inr [Num 63, Num 47, Num (195 / 2)] \<and>
   map_sum id (map (round \<circ> spec_weighted_mean \<circ> agentResults) \<circ> iterations)
     (processDocumentOrchestrated parse_table scan_pdf fractional_final) =
     Inr [63, 47, 98]"
  by code_simp

text \<open>
  C4, amended. For a non-empty list of results that carries at least one specialization
  tag, with integer confidences in the range where the arithmetic of the code is exact
  (\<open>exact_in_doubles\<close>), \<^verbatim>\<open>calculateOverallConfidence\<close> gives the mean of the
  confidences weighted by the number of tags, rounded to the nearest integer. This is the
  overall confidence of the first iteration, and that of a second iteration that ran an
  agent, which computes it over the results of its own agents only. The overall
  confidence of the third iteration is the confidence of its one result, the cross
  validation agent's, as it was reported, without rounding.
\<close>

theorem C4_weighted_mean:
  "(rs \<noteq> [] \<and> 0 < (\<Sum>r\<leftarrow>rs. length (specialization r)) \<and> exact_in_doubles rs \<longrightarrow>
      calculateOverallConfidence rs = Num (of_int (round (spec_weighted_mean rs)))) \<and>
   (runIteration1_BaseAnalysis parse ps be = Inr it1 \<and> exact_in_doubles (agentResults it1) \<longrightarrow>
      overallConfidence it1 = Num (of_int (round (spec_weighted_mean (agentResults it1))))) \<and>
   (runIteration2_SpecializedRefinement parse be prev = Inr it2 \<longrightarrow>
      agentResults it2 = specializedResults parse be prev \<and>
      overallConfidence it2 = calculateOverallConfidence (agentResults it2) \<and>
      (agentResults it2 \<noteq> [] \<and> exact_in_doubles (agentResults it2) \<longrightarrow>
         overallConfidence it2 =
           Num (of_int (round (spec_weighted_mean (agentResults it2)))))) \<and>
   agentResults (runIteration3_FinalVerification parse be prev) =
     [runCrossValidationAgent parse (consolidatedData prev) (validation_calls be)] \<and>
   overallConfidence (runIteration3_FinalVerification parse be prev) =
     Num (confidence
            (runCrossValidationAgent parse (consolidatedData prev) (validation_calls be)))"
proof (intro conjI impI)
  assume "rs \<noteq> [] \<and> 0 < (\<Sum>r\<leftarrow>rs. length (specialization r)) \<and> exact_in_doubles rs"
  then show "calculateOverallConfidence rs = Num (of_int (round (spec_weighted_mean rs)))"
    by (blast intro: calculateOverallConfidence_mean)
next
  assume "runIteration1_BaseAnalysis parse ps be = Inr it1 \<and> exact_in_doubles (agentResults it1)"
  then have it1: "runIteration1_BaseAnalysis parse ps be = Inr it1" by blast
  have "list_all (\<lambda>r. specialization r \<noteq> []) (agentResults it1)"
    by (simp add: iteration1_results(1) [OF it1] classification_specialization
        structural_specialization metadata_specialization)
  moreover have "agentResults it1 \<noteq> []"
    by (simp add: iteration1_results(1) [OF it1])
  ultimately
  show "overallConfidence it1 = Num (of_int (round (spec_weighted_mean (agentResults it1))))"
    unfolding iteration1_results(2) [OF it1]
    by (simp add: calculateOverallConfidence_mean_of_agents)
next
  assume "runIteration2_SpecializedRefinement parse be prev = Inr it2"
  then show "agentResults it2 = specializedResults parse be prev"
    by (simp add: iteration2_results)
next
  assume "runIteration2_SpecializedRefinement parse be prev = Inr it2"
  then show "overallConfidence it2 = calculateOverallConfidence (agentResults it2)"
    by (simp add: iteration2_results)
next
  assume it2: "runIteration2_SpecializedRefinement parse be prev = Inr it2"
    and "agentResults it2 \<noteq> [] \<and> exact_in_doubles (agentResults it2)"
  then have some: "agentResults it2 \<noteq> []" by blast
  from iteration2_results [OF it2]
  have res: "agentResults it2 = specializedResults parse be prev"
    and oc: "overallConfidence it2 = calculateOverallConfidence (agentResults it2)" by simp_all
  have "list_all (\<lambda>r. specialization r \<noteq> []) (agentResults it2)"
    unfolding res by (rule specialized_specializations)
  with some
  show "overallConfidence it2 = Num (of_int (round (spec_weighted_mean (agentResults it2))))"
    unfolding oc by (rule calculateOverallConfidence_mean_of_agents)
next
  show "agentResults (runIteration3_FinalVerification parse be prev) =
      [runCrossValidationAgent parse (consolidatedData prev) (validation_calls be)]"
    by (simp add: runIteration3_FinalVerification_def Let_def)
next
  show "overallConfidence (runIteration3_FinalVerification parse be prev) =
      Num (confidence
             (runCrossValidationAgent parse (consolidatedData prev) (validation_calls be)))"
    by (simp add: runIteration3_FinalVerification_def Let_def)
qed

theorem C4_weighted_mean_witness:
  "exact_in_doubles scenario_results \<and>
   calculateOverallConfidence scenario_results
     = Num (of_int (round (spec_weighted_mean scenario_results))) \<and>
   round (spec_weighted_mean scenario_results) = 83 \<and>
   exact_in_doubles
     (agentResults (projr (runIteration1_BaseAnalysis parse_table scan_pdf fiscal_answers))) \<and>
   overallConfidence (projr (runIteration1_BaseAnalysis parse_table scan_pdf fiscal_answers))
     = Num (of_int (round (spec_weighted_mean
         (agentResults (projr (runIteration1_BaseAnalysis parse_table scan_pdf fiscal_answers)))))) \<and>
   overallConfidence (projr (runIteration1_BaseAnalysis parse_table scan_pdf fiscal_answers))
     = Num 63 \<and>
   agentResults
     (projr (runIteration2_SpecializedRefinement parse_table fiscal_answers
        (projr (runIteration1_BaseAnalysis parse_table scan_pdf fiscal_answers))))
     = specializedResults parse_table fiscal_answers
         (projr (runIteration1_BaseAnalysis parse_table scan_pdf fiscal_answers)) \<and>
   overallConfidence
     (projr (runIteration2_SpecializedRefinement parse_table fiscal_answers
        (projr (runIteration1_BaseAnalysis parse_table scan_pdf fiscal_answers))))
     = Num (of_int (round (spec_weighted_mean
         (agentResults
            (projr (runIteration2_SpecializedRefinement parse_table fiscal_answers
               (projr (runIteration1_BaseAnalysis parse_table scan_pdf fiscal_answers)))))))) \<and>
   overallConfidence
     (projr (runIteration2_SpecializedRefinement parse_table fiscal_answers
        (projr (runIteration1_BaseAnalysis parse_table scan_pdf fiscal_answers)))) = Num 58 \<and>
   overallConfidence
     (runIteration3_FinalVerification parse_table fractional_final
        (projr (runIteration2_SpecializedRefinement parse_table fiscal_answers
           (projr (runIteration1_BaseAnalysis parse_table scan_pdf fiscal_answers)))))
     = Num (195 / 2)"
proof -
  let ?it1 = "projr (runIteration1_BaseAnalysis parse_table scan_pdf fiscal_answers)"
  let ?it2 = "projr (runIteration2_SpecializedRefinement parse_table fiscal_answers ?it1)"
  have ex: "exact_in_doubles scenario_results" by code_simp
  have rs: "scenario_results \<noteq> [] \<and> 0 < (\<Sum>r\<leftarrow>scenario_results. length (specialization r))"
    by (simp add: scenario_results_def)
  have it1: "runIteration1_BaseAnalysis parse_table scan_pdf fiscal_answers = Inr ?it1"
    by code_simp
  have ex1: "exact_in_doubles (agentResults ?it1)" by code_simp
  have it2: "runIteration2_SpecializedRefinement parse_table fiscal_answers ?it1 = Inr ?it2"
    by code_simp
  have some: "agentResults ?it2 \<noteq> []" by code_simp
  have ex2: "exact_in_doubles (agentResults ?it2)" by code_simp
  have v: "round (spec_weighted_mean scenario_results) = 83" by code_simp
  have v1: "overallConfidence ?it1 = Num 63" by code_simp
  have v2: "overallConfidence ?it2 = Num 58" by code_simp
  have c3: "confidence (runCrossValidationAgent parse_table (consolidatedData ?it2)
      (validation_calls fractional_final)) = 195 / 2"
    by code_simp
  note inst = C4_weighted_mean [where rs = scenario_results and parse = parse_table
      and ps = scan_pdf and be = fiscal_answers and ?it1.0 = ?it1 and prev = ?it1
      and ?it2.0 = ?it2]
  note third = C4_weighted_mean [where parse = parse_table and be = fractional_final
      and prev = ?it2]
  from inst rs ex
  have a: "calculateOverallConfidence scenario_results
      = Num (of_int (round (spec_weighted_mean scenario_results)))"
    by blast
  from inst it1 ex1
  have b: "overallConfidence ?it1
      = Num (of_int (round (spec_weighted_mean (agentResults ?it1))))"
    by blast
  from inst it2
  have c: "agentResults ?it2 = specializedResults parse_table fiscal_answers ?it1"
    by blast
  from inst it2 some ex2
  have d: "overallConfidence ?it2
      = Num (of_int (round (spec_weighted_mean (agentResults ?it2))))"
    by blast
  from third
  have "overallConfidence (runIteration3_FinalVerification parse_table fractional_final ?it2)
      = Num (confidence (runCrossValidationAgent parse_table (consolidatedData ?it2)
          (validation_calls fractional_final)))"
    by blast
  then have e: "overallConfidence
      (runIteration3_FinalVerification parse_table fractional_final ?it2) = Num (195 / 2)"
    unfolding c3 .
  from ex a v ex1 b v1 c d v2 e show ?thesis by blast
qed

text \<open>
  C5, as stated, fails: the classification response reports the confidence 200, the
  structural agent answers, and the overall confidence of the first iteration is
  \<open>(200 * 3 + 90 * 4 + 60 * 2) / 9 = 120\<close>.
\<close>

theorem C5_unclamped_confidence_counterexample:
  "map_sum id (map overallConfidence \<circ> iterations)
     (processDocumentOrchestrated parse_table scan_pdf over_confident) = Inr [Num 120]"
  by code_simp

text \<open>
  C5, amended: for every iteration of a run, if every agent result of the iteration has a
  confidence between 0 and 100, then the overall confidence of the iteration is a number
  between 0 and 100, and an integer if these confidences are integers. (A confidence that
  the model reports is taken as it is, without validation or clamping.)
\<close>

theorem C5_bounded_for_bounded_agents:
  assumes "processDocumentOrchestrated parse ps be = Inr run"
    and "it \<in> set (iterations run)"
    and "list_all (\<lambda>r. 0 \<le> confidence r \<and> confidence r \<le> 100) (agentResults it)"
  shows "\<exists>c. overallConfidence it = Num c \<and> 0 \<le> c \<and> c \<le> 100 \<and>
     (list_all (\<lambda>r. confidence r = of_int \<lfloor>confidence r\<rfloor>) (agentResults it) \<longrightarrow>
      c = of_int \<lfloor>c\<rfloor>)"
  using assms(1)
proof (cases rule: run_shape)
  case (1 it1)
  with assms show ?thesis by (auto dest: iteration1_bounded)
next
  case (2 it1 it2)
  with assms show ?thesis by (auto dest: iteration1_bounded iteration2_bounded)
next
  case (3 it1 it2)
  with assms show ?thesis
    by (auto dest: iteration1_bounded iteration2_bounded iteration3_bounded)
qed

theorem C5_bounded_for_bounded_agents_witness:
  "processDocumentOrchestrated parse_table scan_pdf all_failing
     = Inr (projr (processDocumentOrchestrated parse_table scan_pdf all_failing)) \<and>
   map confidence
     (agentResults (iterations (projr (processDocumentOrchestrated parse_table scan_pdf all_failing)) ! 1))
     = [50, 45] \<and>
   overallConfidence (iterations (projr (processDocumentOrchestrated parse_table scan_pdf all_failing)) ! 1)
     = Num 47 \<and>
   (\<exists>c. overallConfidence
          (iterations (projr (processDocumentOrchestrated parse_table scan_pdf all_failing)) ! 1) = Num c \<and>
        0 \<le> c \<and> c \<le> 100 \<and> c = of_int \<lfloor>c\<rfloor>)"
proof -
  let ?run = "projr (processDocumentOrchestrated parse_table scan_pdf all_failing)"
  have run: "processDocumentOrchestrated parse_table scan_pdf all_failing = Inr ?run"
    by code_simp
  have n: "length (iterations ?run) = 3" by code_simp
  have cs: "map confidence (agentResults (iterations ?run ! 1)) = [50, 45]" by code_simp
  have oc: "overallConfidence (iterations ?run ! 1) = Num 47" by code_simp
  from n have mem: "iterations ?run ! 1 \<in> set (iterations ?run)" by simp
  from cs have "list_all (\<lambda>r. 0 \<le> confidence r \<and> confidence r \<le> 100)
      (agentResults (iterations ?run ! 1))"
    by (auto simp add: list_all_iff dest: arg_cong [where f = set])
  with run mem have "\<exists>c. overallConfidence (iterations ?run ! 1) = Num c \<and> 0 \<le> c \<and> c \<le> 100 \<and>
      (list_all (\<lambda>r. confidence r = of_int \<lfloor>confidence r\<rfloor>) (agentResults (iterations ?run ! 1)) \<longrightarrow>
       c = of_int \<lfloor>c\<rfloor>)"
    by (rule C5_bounded_for_bounded_agents)
  moreover from cs have "list_all (\<lambda>r. confidence r = of_int \<lfloor>confidence r\<rfloor>)
      (agentResults (iterations ?run ! 1))"
    by (auto simp add: list_all_iff dest: arg_cong [where f = set])
  ultimately have "\<exists>c. overallConfidence (iterations ?run ! 1) = Num c \<and> 0 \<le> c \<and> c \<le> 100 \<and>
      c = of_int \<lfloor>c\<rfloor>"
    by blast
  with run cs oc show ?thesis by simp
qed

section \<open>Claims about the iterations\<close>

text \<open>
  C2, as stated, fails: the classification response reports the confidence 200 and the
  call of the structural agent is rejected. The overall confidence of the first iteration
  is \<open>(200 * 3 + 40 * 1 + 60 * 2) / 6\<close>, rounded to 127, and the structural fallback
  reports a conflict; the run stops after one iteration, since
  \<^verbatim>\<open>processDocumentOrchestrated\<close> also asks for an overall confidence below 90.
\<close>

theorem C2_conflict_above_90_counterexample:
  "map_sum id overallConfidence
     (runIteration1_BaseAnalysis parse_table scan_pdf over_confident_conflict) = Inr (Num 127) \<and>
   map_sum id (hasConflicts \<circ> agentResults)
     (runIteration1_BaseAnalysis parse_table scan_pdf over_confident_conflict) = Inr True \<and>
   map_sum id iterationsUsed
     (processDocumentOrchestrated parse_table scan_pdf over_confident_conflict) = Inr 1"
  by code_simp

text \<open>
  C2, amended: whenever the first iteration completes, the run completes, and it goes on
  to the second iteration if and only if the overall confidence of the first is below 85,
  or it is below 90 and some agent of the first iteration reported a conflict.
\<close>

theorem C2_stage2_decision:
  assumes "runIteration1_BaseAnalysis parse ps be = Inr it1"
  shows "\<exists>run. processDocumentOrchestrated parse ps be = Inr run \<and>
     hd (iterations run) = it1 \<and>
     (2 \<le> iterationsUsed run) =
       ((js_less (overallConfidence it1) 85 \<or> hasConflicts (agentResults it1)) \<and>
        js_less (overallConfidence it1) 90)"
proof -
  from iteration2_total [OF assms] obtain it2 where
    it2: "runIteration2_SpecializedRefinement parse be it1 = Inr it2" by blast
  note req = iteration1_results(3) [OF assms]
  show ?thesis
    using assms it2 req
    by (simp add: processDocumentOrchestrated_def finish_run_def)
qed

theorem C2_stage2_decision_witness:
  "runIteration1_BaseAnalysis parse_table scan_pdf all_failing
     = Inr (projr (runIteration1_BaseAnalysis parse_table scan_pdf all_failing)) \<and>
   overallConfidence (projr (runIteration1_BaseAnalysis parse_table scan_pdf all_failing)) = Num 42 \<and>
   (\<exists>run. processDocumentOrchestrated parse_table scan_pdf all_failing = Inr run \<and>
      hd (iterations run) = projr (runIteration1_BaseAnalysis parse_table scan_pdf all_failing) \<and>
      2 \<le> iterationsUsed run)"
proof -
  let ?it1 = "projr (runIteration1_BaseAnalysis parse_table scan_pdf all_failing)"
  have it1: "runIteration1_BaseAnalysis parse_table scan_pdf all_failing = Inr ?it1"
    by code_simp
  have oc: "overallConfidence ?it1 = Num 42" by code_simp
  from C2_stage2_decision [OF it1] oc show ?thesis
    using it1 by auto
qed

text \<open>
  C3, as stated, fails twice in one run of three iterations. From the first iteration to
  the second, the total of 100 that the structural agent set with the confidence 90 is
  replaced by the 120 of the fiscal agent, whose reported confidence is 80: lower than
  90, but above the constant 75 that the consolidation compares with. From the second
  iteration to the third, the consolidated data are replaced by the data of the cross
  validation agent, and every field but the invoice number is gone.
\<close>

theorem C3_lower_confidence_and_third_iteration_counterexample:
  "confidence (runStructuralExtractionAgent parse_table scan_pdf (structural_calls fiscal_answers))
     = 90 \<and>
   offered (runStructuralExtractionAgent parse_table scan_pdf (structural_calls fiscal_answers))
     ''totalAmount'' = [JNum 100] \<and>
   confidence (runArgentineFiscalAgent parse_table (fiscal_calls fiscal_answers)) = 80 \<and>
   offered (runArgentineFiscalAgent parse_table (fiscal_calls fiscal_answers))
     ''totalAmount'' = [JNum 120] \<and>
   map_sum id (map (map agentName \<circ> agentResults) \<circ> iterations)
     (processDocumentOrchestrated parse_table scan_pdf fiscal_answers) =
     Inr [[''classification_agent'', ''structural_extraction_agent'', ''metadata_agent''],
          [''argentina_fiscal_agent'', ''international_trade_agent''],
          [''cross_validation_agent'']] \<and>
   map_sum id (map consolidatedData \<circ> iterations)
     (processDocumentOrchestrated parse_table scan_pdf fiscal_answers) =
     Inr [JObj [(''documentType'', JStr ''unknown''), (''documentOrigin'', JStr ''unknown''),
                (''totalAmount'', JNum 100)],
          JObj [(''documentType'', JStr ''unknown''), (''documentOrigin'', JStr ''unknown''),
                (''totalAmount'', JNum 120), (''confidence'', JNum 80)],
          JObj [(''invoiceNumber'', JStr ''A-1'')]]"
  by code_simp

text \<open>
  C3, amended. From the first iteration to the second: no field of the consolidated
  object is dropped; the value of a field in the second iteration is its value in the
  first or a non-null, non-empty value that a result of the second iteration carries for
  that field; a truthy value is replaced only if a result of the second iteration whose
  confidence is above the constant 75 carries the field, and, when every value that the
  results of the second iteration carry for the field is truthy, only by a value that
  such a result carries (the confidence of the result that set the earlier value is not
  compared). The consolidated data of the third iteration are the data that the cross
  validation agent returns.
\<close>

theorem C3_consolidated_data_between_iterations:
  assumes "runIteration1_BaseAnalysis parse ps be = Inr it1"
    and "runIteration2_SpecializedRefinement parse be it1 = Inr it2"
  shows "dom (map_of (own_props (consolidatedData it1)))
       \<subseteq> dom (map_of (own_props (consolidatedData it2))) \<and>
     (\<forall>k v. map_of (own_props (consolidatedData it2)) k = Some v \<longrightarrow>
        map_of (own_props (consolidatedData it1)) k = Some v \<or>
        (\<exists>r \<in> set (agentResults it2). v \<in> set (offered r k))) \<and>
     (\<forall>k v. map_of (own_props (consolidatedData it1)) k = Some v \<and> truthy v \<and>
        list_all (\<lambda>r. offered r k = [] \<or> confidence r \<le> 75) (agentResults it2) \<longrightarrow>
        map_of (own_props (consolidatedData it2)) k = Some v) \<and>
     (\<forall>k v w. map_of (own_props (consolidatedData it1)) k = Some v \<and> truthy v \<and>
        map_of (own_props (consolidatedData it2)) k = Some w \<and> w \<noteq> v \<and>
        list_all (\<lambda>r. list_all truthy (offered r k)) (agentResults it2) \<longrightarrow>
        (\<exists>r \<in> set (agentResults it2). 75 < confidence r \<and> w \<in> set (offered r k))) \<and>
     consolidatedData (runIteration3_FinalVerification parse be it2) =
       extractedData
         (runCrossValidationAgent parse (consolidatedData it2) (validation_calls be))"
proof -
  from iteration2_results [OF assms(2)] iteration2_consolidates_from_iteration1 [OF assms(1)]
  have run: "consolidate_from (consolidatedData it1) (agentResults it2)
      = Inr (consolidatedData it2)"
    by simp
  have kept: "dom (map_of (own_props (consolidatedData it1)))
      \<subseteq> dom (map_of (own_props (consolidatedData it2)))"
    using run by (rule consolidate_from_keeps_keys)
  have offered_or_kept: "map_of (own_props (consolidatedData it1)) k = Some v \<or>
      (\<exists>r \<in> set (agentResults it2). v \<in> set (offered r k))"
    if "map_of (own_props (consolidatedData it2)) k = Some v" for k v
    using run that by (rule consolidate_from_offered_or_kept)
  have stays: "map_of (own_props (consolidatedData it2)) k = Some v"
    if "map_of (own_props (consolidatedData it1)) k = Some v \<and> truthy v \<and>
      list_all (\<lambda>r. offered r k = [] \<or> confidence r \<le> 75) (agentResults it2)" for k v
    using run that by (blast intro: consolidate_from_low_keeps_truthy)
  have source: "\<exists>r \<in> set (agentResults it2). 75 < confidence r \<and> w \<in> set (offered r k)"
    if "map_of (own_props (consolidatedData it1)) k = Some v \<and> truthy v \<and>
      map_of (own_props (consolidatedData it2)) k = Some w \<and> w \<noteq> v \<and>
      list_all (\<lambda>r. list_all truthy (offered r k)) (agentResults it2)" for k v w
  proof -
    from that have v: "map_of (own_props (consolidatedData it1)) k = Some v"
      and t: "truthy v"
      and w: "map_of (own_props (consolidatedData it2)) k = Some w" "w \<noteq> v"
      and all: "list_all (\<lambda>r. list_all truthy (offered r k)) (agentResults it2)"
      by blast+
    from consolidate_from_truthy_source [OF run v t all] w show ?thesis by auto
  qed
  have third: "consolidatedData (runIteration3_FinalVerification parse be it2) =
      extractedData
        (runCrossValidationAgent parse (consolidatedData it2) (validation_calls be))"
    by (simp add: runIteration3_FinalVerification_def Let_def)
  from kept offered_or_kept stays source third show ?thesis by blast
qed

theorem C3_consolidated_data_between_iterations_witness:
  "runIteration1_BaseAnalysis parse_table scan_pdf fiscal_answers
     = Inr (projr (runIteration1_BaseAnalysis parse_table scan_pdf fiscal_answers)) \<and>
   runIteration2_SpecializedRefinement parse_table fiscal_answers
       (projr (runIteration1_BaseAnalysis parse_table scan_pdf fiscal_answers))
     = Inr (projr (runIteration2_SpecializedRefinement parse_table fiscal_answers
         (projr (runIteration1_BaseAnalysis parse_table scan_pdf fiscal_answers)))) \<and>
   map_of (own_props (consolidatedData
       (projr (runIteration1_BaseAnalysis parse_table scan_pdf fiscal_answers))))
     ''totalAmount'' = Some (JNum 100) \<and>
   map_of (own_props (consolidatedData
       (projr (runIteration2_SpecializedRefinement parse_table fiscal_answers
         (projr (runIteration1_BaseAnalysis parse_table scan_pdf fiscal_answers))))))
     ''totalAmount'' = Some (JNum 120) \<and>
   (\<exists>r \<in> set (agentResults
       (projr (runIteration2_SpecializedRefinement parse_table fiscal_answers
         (projr (runIteration1_BaseAnalysis parse_table scan_pdf fiscal_answers))))).
      75 < confidence r \<and> JNum 120 \<in> set (offered r ''totalAmount'')) \<and>
   map_of (own_props (consolidatedData
       (projr (runIteration1_BaseAnalysis parse_table scan_pdf fiscal_answers))))
     ''documentOrigin'' = Some (JStr ''unknown'') \<and>
   map_of (own_props (consolidatedData
       (projr (runIteration2_SpecializedRefinement parse_table fiscal_answers
         (projr (runIteration1_BaseAnalysis parse_table scan_pdf fiscal_answers))))))
     ''documentOrigin'' = Some (JStr ''unknown'') \<and>
   dom (map_of (own_props (consolidatedData
       (projr (runIteration1_BaseAnalysis parse_table scan_pdf fiscal_answers)))))
     \<subseteq> dom (map_of (own_props (consolidatedData
       (projr (runIteration2_SpecializedRefinement parse_table fiscal_answers
         (projr (runIteration1_BaseAnalysis parse_table scan_pdf fiscal_answers)))))))"
proof -
  let ?it1 = "projr (runIteration1_BaseAnalysis parse_table scan_pdf fiscal_answers)"
  let ?it2 = "projr (runIteration2_SpecializedRefinement parse_table fiscal_answers ?it1)"
  have it1: "runIteration1_BaseAnalysis parse_table scan_pdf fiscal_answers = Inr ?it1"
    by code_simp
  have it2: "runIteration2_SpecializedRefinement parse_table fiscal_answers ?it1 = Inr ?it2"
    by code_simp
  have t1: "map_of (own_props (consolidatedData ?it1)) ''totalAmount'' = Some (JNum 100)"
    by code_simp
  have t2: "map_of (own_props (consolidatedData ?it2)) ''totalAmount'' = Some (JNum 120)"
    by code_simp
  have o1: "map_of (own_props (consolidatedData ?it1)) ''documentOrigin''
      = Some (JStr ''unknown'')"
    by code_simp
  have low: "list_all (\<lambda>r. offered r ''documentOrigin'' = [] \<or> confidence r \<le> 75)
      (agentResults ?it2)"
    by code_simp
  note inst = C3_consolidated_data_between_iterations [OF it1 it2]
  from inst have kept: "dom (map_of (own_props (consolidatedData ?it1)))
      \<subseteq> dom (map_of (own_props (consolidatedData ?it2)))"
    by blast
  have all_truthy: "list_all (\<lambda>r. list_all truthy (offered r ''totalAmount'')) (agentResults ?it2)"
    by code_simp
  have "truthy (JNum 100)" "JNum 120 \<noteq> JNum 100" by simp_all
  with inst t1 t2 all_truthy have from_stage2:
    "\<exists>r \<in> set (agentResults ?it2). 75 < confidence r \<and>
       JNum 120 \<in> set (offered r ''totalAmount'')"
    by blast
  have "truthy (JStr ''unknown'')" by simp
  with inst o1 low
  have o2: "map_of (own_props (consolidatedData ?it2)) ''documentOrigin''
      = Some (JStr ''unknown'')"
    by blast
  from it1 it2 t1 t2 from_stage2 o1 o2 kept show ?thesis by blast
qed

section \<open>Claims about failures\<close>

text \<open>
  C6, as stated, fails for the cross validation agent: when its call is rejected, the
  extracted data of its result are the consolidated data it was given, with all their
  document fields and no error mark (the conflict marker of the source reads "data
  preserved").
\<close>

theorem C6_validation_fallback_counterexample:
  "failing 0 = CallFails \<and>
   extractedData (runCrossValidationAgent parse_table invoice_data failing) =
     JObj [(''invoiceNumber'', JStr ''A-1''), (''totalAmount'', JNum 100)] \<and>
   get_prop (extractedData (runCrossValidationAgent parse_table invoice_data failing)) ''error'' = None \<and>
   confidence (runCrossValidationAgent parse_table invoice_data failing) = 80"
  by code_simp

text \<open>
  C6, amended: when the backend call of an agent is rejected or returns no text block, the
  confidence of the result is a constant of that agent (30, 40, 50, 45, 60, 80) that does
  not depend on the model; the extracted data are empty for the structural, fiscal,
  trade and conflict resolution agents, the two placeholders \<^verbatim>\<open>unknown\<close> for the
  classification agent, and the prior consolidated data, unchanged, for the cross
  validation agent.
\<close>

theorem C6_fallback_results:
  assumes "backend 0 = CallFails \<or> backend 0 = NonTextBlock"
  shows "confidence (runClassificationAgent parse backend) = 30 \<and>
     extractedData (runClassificationAgent parse backend) =
       JObj [(''documentType'', JStr ''unknown''), (''documentOrigin'', JStr ''unknown'')] \<and>
     confidence (runStructuralExtractionAgent parse ps backend) = 40 \<and>
     extractedData (runStructuralExtractionAgent parse ps backend) = JObj [] \<and>
     confidence (runArgentineFiscalAgent parse backend) = 50 \<and>
     extractedData (runArgentineFiscalAgent parse backend) = JObj [] \<and>
     confidence (runInternationalTradeAgent parse backend) = 45 \<and>
     extractedData (runInternationalTradeAgent parse backend) = JObj [] \<and>
     confidence (runConflictResolutionAgent parse backend) = 60 \<and>
     extractedData (runConflictResolutionAgent parse backend) = JObj [] \<and>
     confidence (runCrossValidationAgent parse previousData backend) = 80 \<and>
     extractedData (runCrossValidationAgent parse previousData backend) = previousData"
  using assms
  by (auto simp add: runClassificationAgent_def classification_fallback_def
      runStructuralExtractionAgent_def structural_fallback_def
      runArgentineFiscalAgent_def fiscal_fallback_def
      runInternationalTradeAgent_def trade_fallback_def
      runConflictResolutionAgent_def conflict_fallback_def
      runCrossValidationAgent_def validation_fallback_def)

theorem C6_fallback_results_witness:
  "(failing 0 = CallFails) \<and>
   confidence (runClassificationAgent parse_table failing) = 30 \<and>
   extractedData (runArgentineFiscalAgent parse_table failing) = JObj [] \<and>
   extractedData (runCrossValidationAgent parse_table invoice_data failing) = invoice_data"
proof -
  have f: "failing 0 = CallFails \<or> failing 0 = NonTextBlock" by (simp add: failing_def)
  from C6_fallback_results [where backend = failing and parse = parse_table and ps = scan_pdf
      and previousData = invoice_data, OF f]
  show ?thesis by (simp add: failing_def)
qed

text \<open>
  C7. The claim: a response that does not parse yields a result with the parse error as a
  conflict marker and a low fallback confidence. \<^verbatim>\<open>cleanAnthropicResponse\<close> catches
  the parse error and returns an error object, so the \<^verbatim>\<open>catch\<close> block of the
  agent is not reached: the classification agent returns the error object as extracted
  data with its default confidence 75 and no conflict marker, and the cross validation
  agent its default 98. The structural agent, which parses the text itself, returns its
  fallback with a conflict marker on the same response.
\<close>

theorem C7_parse_failure_keeps_default_confidence:
  "parse_table (strip_fences (trim text_apology)) = None \<and>
   runClassificationAgent parse_table (replies text_apology) =
     \<lparr>agentName = ''classification_agent'',
      extractedData =
        JObj [(''error'', JStr ''Failed to parse JSON''), (''rawResponse'', JStr text_apology)],
      confidence = 75,
      specialization = [''document_type'', ''origin_detection'', ''currency_detection''],
      conflicts = None\<rparr> \<and>
   confidence (runCrossValidationAgent parse_table invoice_data (replies text_apology)) = 98 \<and>
   runStructuralExtractionAgent parse_table scan_pdf (replies text_apology) = structural_fallback"
  by code_simp

text \<open>
  C8, as stated, fails: the retry budget of the classification agent is 2, the first call
  is rejected and a second one would be answered. The agent returns its fallback of
  confidence 30; an invoker that applied the retry budget would return the answer of
  confidence 90.
\<close>

theorem C8_no_retry_counterexample:
  "maxRetries ''classification_agent'' = 2 \<and>
   fails_once_then text_classified 0 = CallFails \<and>
   fails_once_then text_classified 1 = TextBlock text_classified \<and>
   confidence (runClassificationAgent parse_table (fails_once_then text_classified)) = 30 \<and>
   confidence
     (spec_invoke_with_retries (maxRetries ''classification_agent'')
        (runClassificationAgent parse_table) (fails_once_then text_classified)) = 90"
  by code_simp

text \<open>
  C8, amended: an agent whose first backend call is rejected makes no further attempt and
  returns its fallback result, whatever later attempts would be answered. An iteration
  keeps one result for each agent it starts: with one call rejected, an iteration that
  would complete still completes, with the fallback in the place of that agent's result
  and the other results as they were (three results in the first iteration, the results
  of the started agents in the second, one in the third); and a run that would complete
  still completes.
\<close>

theorem C8_fallback_at_once:
  assumes "backend 0 = CallFails"
  shows "runClassificationAgent parse backend = classification_fallback \<and>
     runStructuralExtractionAgent parse ps backend = structural_fallback \<and>
     runArgentineFiscalAgent parse backend = fiscal_fallback \<and>
     runInternationalTradeAgent parse backend = trade_fallback \<and>
     runConflictResolutionAgent parse backend = conflict_fallback \<and>
     runCrossValidationAgent parse previousData backend = validation_fallback previousData \<and>
     (runIteration1_BaseAnalysis parse ps be = Inr it1 \<longrightarrow>
        length (agentResults it1) = 3 \<and>
        (\<exists>it1'. runIteration1_BaseAnalysis parse ps (be\<lparr>classification_calls := backend\<rparr>)
             = Inr it1' \<and>
           agentResults it1' = (agentResults it1)[0 := classification_fallback]) \<and>
        (\<exists>it1'. runIteration1_BaseAnalysis parse ps (be\<lparr>structural_calls := backend\<rparr>)
             = Inr it1' \<and>
           agentResults it1' = (agentResults it1)[1 := structural_fallback])) \<and>
     (runIteration2_SpecializedRefinement parse be prev = Inr it2 \<longrightarrow>
        (\<exists>it2'. runIteration2_SpecializedRefinement parse (be\<lparr>fiscal_calls := backend\<rparr>) prev
             = Inr it2' \<and>
           agentResults it2' =
             map (\<lambda>r. if agentName r = ''argentina_fiscal_agent'' then fiscal_fallback else r)
               (agentResults it2)) \<and>
        (\<exists>it2'. runIteration2_SpecializedRefinement parse (be\<lparr>trade_calls := backend\<rparr>) prev
             = Inr it2' \<and>
           agentResults it2' =
             map (\<lambda>r. if agentName r = ''international_trade_agent'' then trade_fallback else r)
               (agentResults it2))) \<and>
     agentResults (runIteration3_FinalVerification parse (be\<lparr>validation_calls := backend\<rparr>) prev)
       = [validation_fallback (consolidatedData prev)] \<and>
     ((\<exists>run. processDocumentOrchestrated parse ps be = Inr run) \<longrightarrow>
        (\<exists>run. processDocumentOrchestrated parse ps (be\<lparr>classification_calls := backend\<rparr>)
           = Inr run) \<and>
        (\<exists>run. processDocumentOrchestrated parse ps (be\<lparr>structural_calls := backend\<rparr>)
           = Inr run) \<and>
        (\<exists>run. processDocumentOrchestrated parse ps (be\<lparr>fiscal_calls := backend\<rparr>)
           = Inr run) \<and>
        (\<exists>run. processDocumentOrchestrated parse ps (be\<lparr>trade_calls := backend\<rparr>)
           = Inr run) \<and>
        (\<exists>run. processDocumentOrchestrated parse ps (be\<lparr>conflict_calls := backend\<rparr>)
           = Inr run) \<and>
        (\<exists>run. processDocumentOrchestrated parse ps (be\<lparr>validation_calls := backend\<rparr>)
           = Inr run))"
proof -
  from assms have c: "runClassificationAgent parse backend = classification_fallback"
    by (simp add: runClassificationAgent_def)
  from assms have s: "runStructuralExtractionAgent parse ps backend = structural_fallback"
    by (simp add: runStructuralExtractionAgent_def)
  from assms have f: "runArgentineFiscalAgent parse backend = fiscal_fallback"
    by (simp add: runArgentineFiscalAgent_def)
  from assms have t: "runInternationalTradeAgent parse backend = trade_fallback"
    by (simp add: runInternationalTradeAgent_def)
  from assms have r: "runConflictResolutionAgent parse backend = conflict_fallback"
    by (simp add: runConflictResolutionAgent_def)
  from assms
  have v: "runCrossValidationAgent parse previousData backend = validation_fallback previousData"
    for previousData
    by (simp add: runCrossValidationAgent_def)
  have first: "length (agentResults it1) = 3 \<and>
        (\<exists>it1'. runIteration1_BaseAnalysis parse ps (be\<lparr>classification_calls := backend\<rparr>)
             = Inr it1' \<and>
           agentResults it1' = (agentResults it1)[0 := classification_fallback]) \<and>
        (\<exists>it1'. runIteration1_BaseAnalysis parse ps (be\<lparr>structural_calls := backend\<rparr>)
             = Inr it1' \<and>
           agentResults it1' = (agentResults it1)[1 := structural_fallback])"
    if it1: "runIteration1_BaseAnalysis parse ps be = Inr it1"
  proof -
    note rs = iteration1_results(1) [OF it1]
    from it1 have "\<exists>it1. runIteration1_BaseAnalysis parse ps be = Inr it1" by blast
    then have ok: "extractedData (runStructuralExtractionAgent parse ps (structural_calls be))
        \<noteq> JNull"
      by (simp add: iteration1_completes)
    then have "extractedData (runStructuralExtractionAgent parse ps
        (structural_calls (be\<lparr>classification_calls := backend\<rparr>))) \<noteq> JNull"
      by simp
    from iteration1_total [OF this] obtain a where
      a: "runIteration1_BaseAnalysis parse ps (be\<lparr>classification_calls := backend\<rparr>) = Inr a"
      by blast
    from iteration1_results(1) [OF a] rs c
    have a_rs: "agentResults a = (agentResults it1)[0 := classification_fallback]"
      by simp
    have "extractedData (runStructuralExtractionAgent parse ps
        (structural_calls (be\<lparr>structural_calls := backend\<rparr>))) \<noteq> JNull"
      by (simp add: s structural_fallback_def)
    from iteration1_total [OF this] obtain b where
      b: "runIteration1_BaseAnalysis parse ps (be\<lparr>structural_calls := backend\<rparr>) = Inr b"
      by blast
    from iteration1_results(1) [OF b] rs s
    have b_rs: "agentResults b = (agentResults it1)[1 := structural_fallback]"
      by simp
    from rs have "length (agentResults it1) = 3" by simp
    with a a_rs b b_rs show ?thesis by blast
  qed
  have second: "(\<exists>it2'. runIteration2_SpecializedRefinement parse (be\<lparr>fiscal_calls := backend\<rparr>) prev
             = Inr it2' \<and>
           agentResults it2' =
             map (\<lambda>r. if agentName r = ''argentina_fiscal_agent'' then fiscal_fallback else r)
               (agentResults it2)) \<and>
        (\<exists>it2'. runIteration2_SpecializedRefinement parse (be\<lparr>trade_calls := backend\<rparr>) prev
             = Inr it2' \<and>
           agentResults it2' =
             map (\<lambda>r. if agentName r = ''international_trade_agent'' then trade_fallback else r)
               (agentResults it2))"
    if it2: "runIteration2_SpecializedRefinement parse be prev = Inr it2"
  proof -
    from iteration2_results [OF it2]
    have rs: "agentResults it2 = specializedResults parse be prev" by simp
    from it2 have "\<exists>it2. runIteration2_SpecializedRefinement parse be prev = Inr it2" by blast
    then have ok: "consolidatedData prev \<noteq> JNull \<and>
        list_all (\<lambda>r. extractedData r \<noteq> JNull) (agentResults prev)"
      by (simp add: iteration2_completes)
    then have "\<exists>a. runIteration2_SpecializedRefinement parse (be\<lparr>fiscal_calls := backend\<rparr>) prev
        = Inr a"
      by (simp add: iteration2_completes)
    then obtain a where
      a: "runIteration2_SpecializedRefinement parse (be\<lparr>fiscal_calls := backend\<rparr>) prev = Inr a"
      by blast
    from iteration2_results [OF a] rs specialized_when_a_call_fails(1) [where backend = backend, OF assms]
    have a_rs: "agentResults a =
        map (\<lambda>r. if agentName r = ''argentina_fiscal_agent'' then fiscal_fallback else r)
          (agentResults it2)"
      by simp
    from ok have "\<exists>b. runIteration2_SpecializedRefinement parse (be\<lparr>trade_calls := backend\<rparr>) prev
        = Inr b"
      by (simp add: iteration2_completes)
    then obtain b where
      b: "runIteration2_SpecializedRefinement parse (be\<lparr>trade_calls := backend\<rparr>) prev = Inr b"
      by blast
    from iteration2_results [OF b] rs specialized_when_a_call_fails(2) [where backend = backend, OF assms]
    have b_rs: "agentResults b =
        map (\<lambda>r. if agentName r = ''international_trade_agent'' then trade_fallback else r)
          (agentResults it2)"
      by simp
    from a a_rs b b_rs show ?thesis by blast
  qed
  have third: "agentResults
      (runIteration3_FinalVerification parse (be\<lparr>validation_calls := backend\<rparr>) prev)
       = [validation_fallback (consolidatedData prev)]"
    by (simp add: runIteration3_FinalVerification_def Let_def v)
  have runs: "(\<exists>run. processDocumentOrchestrated parse ps (be\<lparr>classification_calls := backend\<rparr>)
           = Inr run) \<and>
        (\<exists>run. processDocumentOrchestrated parse ps (be\<lparr>structural_calls := backend\<rparr>)
           = Inr run) \<and>
        (\<exists>run. processDocumentOrchestrated parse ps (be\<lparr>fiscal_calls := backend\<rparr>)
           = Inr run) \<and>
        (\<exists>run. processDocumentOrchestrated parse ps (be\<lparr>trade_calls := backend\<rparr>)
           = Inr run) \<and>
        (\<exists>run. processDocumentOrchestrated parse ps (be\<lparr>conflict_calls := backend\<rparr>)
           = Inr run) \<and>
        (\<exists>run. processDocumentOrchestrated parse ps (be\<lparr>validation_calls := backend\<rparr>)
           = Inr run)"
    if "\<exists>run. processDocumentOrchestrated parse ps be = Inr run"
  proof -
    from that
    have "extractedData (runStructuralExtractionAgent parse ps (structural_calls be)) \<noteq> JNull"
      by (simp add: run_completes)
    then show ?thesis
      by (simp add: run_completes s structural_fallback_def)
  qed
  from c s f t r v first second third runs show ?thesis by blast
qed

theorem C8_fallback_at_once_witness:
  "failing 0 = CallFails \<and>
   runClassificationAgent parse_table failing = classification_fallback \<and>
   runIteration1_BaseAnalysis parse_table scan_pdf over_confident
     = Inr (projr (runIteration1_BaseAnalysis parse_table scan_pdf over_confident)) \<and>
   map confidence
     (agentResults (projr (runIteration1_BaseAnalysis parse_table scan_pdf over_confident)))
     = [200, 90, 60] \<and>
   (\<exists>it1'. runIteration1_BaseAnalysis parse_table scan_pdf
        (over_confident\<lparr>classification_calls := failing\<rparr>) = Inr it1' \<and>
      agentResults it1' =
        (agentResults (projr (runIteration1_BaseAnalysis parse_table scan_pdf over_confident)))
          [0 := classification_fallback]) \<and>
   map confidence
     (agentResults
        (projr (runIteration2_SpecializedRefinement parse_table fiscal_answers
           (projr (runIteration1_BaseAnalysis parse_table scan_pdf fiscal_answers)))))
     = [80, 45] \<and>
   (\<exists>it2'. runIteration2_SpecializedRefinement parse_table
        (fiscal_answers\<lparr>fiscal_calls := failing\<rparr>)
        (projr (runIteration1_BaseAnalysis parse_table scan_pdf fiscal_answers)) = Inr it2' \<and>
      map confidence (agentResults it2') = [50, 45]) \<and>
   (\<exists>run. processDocumentOrchestrated parse_table scan_pdf
        (over_confident\<lparr>classification_calls := failing\<rparr>) = Inr run)"
proof -
  let ?p = "projr (runIteration1_BaseAnalysis parse_table scan_pdf fiscal_answers)"
  let ?it2 = "projr (runIteration2_SpecializedRefinement parse_table fiscal_answers ?p)"
  have it2: "runIteration2_SpecializedRefinement parse_table fiscal_answers ?p = Inr ?it2"
    by code_simp
  have cs2: "map confidence (agentResults ?it2) = [80, 45]" by code_simp
  have cs2': "map confidence
      (map (\<lambda>r. if agentName r = ''argentina_fiscal_agent'' then fiscal_fallback else r)
         (agentResults ?it2)) = [50, 45]"
    by code_simp
  let ?it1 = "projr (runIteration1_BaseAnalysis parse_table scan_pdf over_confident)"
  have a: "failing 0 = CallFails" by (simp add: failing_def)
  have it1: "runIteration1_BaseAnalysis parse_table scan_pdf over_confident = Inr ?it1"
    by code_simp
  have cs: "map confidence (agentResults ?it1) = [200, 90, 60]" by code_simp
  have run: "processDocumentOrchestrated parse_table scan_pdf over_confident
      = Inr (projr (processDocumentOrchestrated parse_table scan_pdf over_confident))"
    by code_simp
  then have runs: "\<exists>run. processDocumentOrchestrated parse_table scan_pdf over_confident = Inr run"
    by blast
  note inst = C8_fallback_at_once [where backend = failing and parse = parse_table
      and ps = scan_pdf and be = over_confident and ?it1.0 = ?it1, OF a]
  from inst
  have one: "runClassificationAgent parse_table failing = classification_fallback"
    by blast
  from inst it1
  have two: "\<exists>it1'. runIteration1_BaseAnalysis parse_table scan_pdf
        (over_confident\<lparr>classification_calls := failing\<rparr>) = Inr it1' \<and>
      agentResults it1' = (agentResults ?it1)[0 := classification_fallback]"
    by blast
  from inst runs
  have three: "\<exists>run. processDocumentOrchestrated parse_table scan_pdf
        (over_confident\<lparr>classification_calls := failing\<rparr>) = Inr run"
    by blast
  note inst2 = C8_fallback_at_once [where backend = failing and parse = parse_table
      and be = fiscal_answers and prev = ?p and ?it2.0 = ?it2, OF a]
  from inst2 it2
  have "\<exists>it2'. runIteration2_SpecializedRefinement parse_table
        (fiscal_answers\<lparr>fiscal_calls := failing\<rparr>) ?p = Inr it2' \<and>
      agentResults it2' =
        map (\<lambda>r. if agentName r = ''argentina_fiscal_agent'' then fiscal_fallback else r)
          (agentResults ?it2)"
    by blast
  with cs2' have four: "\<exists>it2'. runIteration2_SpecializedRefinement parse_table
        (fiscal_answers\<lparr>fiscal_calls := failing\<rparr>) ?p = Inr it2' \<and>
      map confidence (agentResults it2') = [50, 45]"
    by auto
  from a one it1 cs two cs2 four three show ?thesis by blast
qed

section \<open>Claims about the metrics\<close>

text \<open>
  C9. The claim: the running average confidence is the mean over the successful calls.
  \<^verbatim>\<open>recordAgentExecution\<close> updates the average on a success only, but weights the
  old average by the count of all executions: after a success with 90, a failure and a
  success with 60 the average is \<open>(90 * 2 + 60) / 3 = 80\<close>, and the mean over the two
  successful calls is 75. The success rate is \<open>(3 - 1) / 3 * 100\<close>, as claimed.
\<close>

theorem C9_average_counts_failed_calls:
  "map_option executions (recordExecutions initialMetrics ''classification_agent'' three_calls
      ''classification_agent'') = Some 3 \<and>
   map_option errorCount (recordExecutions initialMetrics ''classification_agent'' three_calls
      ''classification_agent'') = Some 1 \<and>
   map_option averageConfidence (recordExecutions initialMetrics ''classification_agent'' three_calls
      ''classification_agent'') = Some 80 \<and>
   mean_successful_confidence three_calls = 75 \<and>
   map_option successRate (recordExecutions initialMetrics ''classification_agent'' three_calls
      ''classification_agent'') = Some (200 / 3)"
  by code_simp

end
